theory Spec2Isabelle
  imports Complex_Main
begin

section \<open>Data model\<close>

text \<open>
  The rows of the store's tables, as the route handlers of \<^verbatim>\<open>app/routes\<close> read and
  write them. Primary keys and foreign keys are identifiers of one type; a reading of
  the clock by \<^verbatim>\<open>datetime.now()\<close> is a timestamp, and a request is given its clock
  as the function from the number of the reading, counted from 1, to the time read.
\<close>

type_synonym ident = nat
type_synonym timestamp = nat
type_synonym clock = "nat \<Rightarrow> timestamp"

text \<open>\<^verbatim>\<open>UserType\<close> and \<^verbatim>\<open>VerificationStatus\<close> of \<^verbatim>\<open>app/models/user.py\<close>.\<close>

datatype user_type = Tenant | Landlord | Admin

datatype verification_status = Verif_pending | Verif_approved | Verif_rejected | Verif_partial

text \<open>\<^verbatim>\<open>PropertyStatus\<close> of \<^verbatim>\<open>app/models/property.py\<close>.\<close>

datatype property_status = Draft | Active | Rented | Inactive

text \<open>
  The status strings of the tables \<^verbatim>\<open>applications\<close> and \<^verbatim>\<open>transactions\<close> that
  \<^verbatim>\<open>app/routes/applications.py\<close> writes or tests.
\<close>

datatype application_status = Submitted | Under_review | Approved | Rejected

datatype transaction_status = Held | Released | Refunded

text \<open>
  A value stored under a key of a tenant's \<^verbatim>\<open>documents\<close> dictionary: a URL, or the
  list of reference e-mail addresses.
\<close>

datatype doc_value = Doc_str string | Doc_list "string list"

record user =
  user_id :: ident
  user_type :: user_type
  trust_score :: int
  verification_status :: verification_status

record preferences =
  bedrooms :: int
  move_in_date :: "string option"
  join_rent_credit :: bool

text \<open>
  A row of \<^verbatim>\<open>tenants\<close>. A column that may hold \<^verbatim>\<open>None\<close> is an option; \<open>documents\<close>
  is \<open>None\<close> when the stored value is not a dictionary, and the dictionary is an
  association list read with \<^const>\<open>map_of\<close>.
\<close>

record tenant =
  tenant_id :: ident
  budget :: "real option"
  preferred_location :: "string option"
  tenant_preferences :: "preferences option"
  documents :: "(string \<times> doc_value) list option"
  profile_completion :: int
  onboarding_completed :: bool
  profile_completed_at :: "timestamp option"

record landlord =
  landlord_row_id :: ident
  guarantee_joined :: bool
  guarantee_contribution :: real

record property =
  prop_id :: ident
  landlord_id :: ident
  rent_amount :: real
  prop_status :: property_status
  application_count :: int

record application =
  app_id :: ident
  app_tenant_id :: ident
  app_property_id :: ident
  app_status :: application_status
  message :: "string option"
  proposed_move_in_date :: "string option"
  rejection_reason :: "string option"
  reason_code :: "string option"
  reviewed_at :: "timestamp option"
  reviewed_by :: "ident option"

record transaction =
  txn_id :: ident
  txn_application_id :: ident
  txn_tenant_id :: ident
  txn_landlord_id :: ident
  txn_property_id :: ident
  amount :: real
  currency :: string
  txn_status :: transaction_status
  payment_gateway :: string
  transaction_type :: string
  held_at :: "timestamp option"
  released_at :: "timestamp option"
  refunded_at :: "timestamp option"
  txn_notes :: string

text \<open>
  The store behind \<^verbatim>\<open>supabase_admin\<close>: one list of rows per table, and the counter
  from which the store draws the primary key of a row it inserts, so that a new key
  differs from every key issued before.
\<close>

record db =
  users :: "user list"
  tenants :: "tenant list"
  landlords :: "landlord list"
  properties :: "property list"
  applications :: "application list"
  transactions :: "transaction list"
  next_id :: ident

subsection \<open>Requests, responses and errors\<close>

text \<open>\<^verbatim>\<open>ApplicationCreate\<close>, \<^verbatim>\<open>ApplicationReject\<close> and \<^verbatim>\<open>CompleteProfileData\<close>.\<close>

record application_create =
  property_id :: ident
  ac_message :: "string option"
  ac_proposed_move_in_date :: "string option"

record application_reject =
  reason :: string
  ar_reason_code :: string

record complete_profile_data =
  cp_budget :: real
  cp_preferred_location :: string
  cp_bedrooms :: int
  cp_move_in_date :: "string option"
  id_document_url :: string
  proof_of_income_url :: string
  reference1_email :: "string option"
  reference2_email :: "string option"
  cp_join_rent_credit :: bool

text \<open>What \<^verbatim>\<open>supabase.auth.sign_up\<close> returns: the new user's key and the session's token.\<close>

record auth_response =
  auth_user :: "ident option"
  access_token :: "string option"

text \<open>
  Every \<^verbatim>\<open>HTTPException\<close> the handlers raise, one constructor per \<^verbatim>\<open>raise\<close>;
  \<open>status_code\<close> gives its HTTP status. The constructors ending in \<open>_failed\<close> are the
  \<^verbatim>\<open>except Exception\<close> clauses, which turn any other exception into status 400.
  \<open>Profile_incomplete\<close> is the refusal of a tenant whose profile is not complete,
  \<open>Duplicate_application\<close> the refusal of a second application, \<open>Forbidden_approve\<close>
  and \<open>Forbidden_reject\<close> the refusal of a landlord who does not own the property, and
  \<open>Invalid_transition\<close> the refusal of an application that is no longer open; it
  carries the status found, as the message does.
\<close>

datatype error =
    Failed_to_create_user
  | Registration_failed
  | Profile_incomplete
  | Property_not_found
  | Duplicate_application
  | Failed_to_create_application
  | Submit_failed
  | Application_not_found
  | Forbidden_approve
  | Forbidden_reject
  | Invalid_transition application_status
  | Approve_failed
  | Reject_failed
  | Failed_to_complete_profile
  | Complete_profile_failed

fun status_code :: "error \<Rightarrow> nat" where
  "status_code Profile_incomplete = 403"
| "status_code Forbidden_approve = 403"
| "status_code Forbidden_reject = 403"
| "status_code Property_not_found = 404"
| "status_code Application_not_found = 404"
| "status_code _ = 400"

datatype response =
    Registered user
  | Application_submitted application "transaction option"
  | Application_approved
  | Application_rejected
  | Profile_completed tenant int

text \<open>
  A request makes its calls to the store in a fixed order. A call can raise for a reason
  outside the tables (the store is unreachable, a constraint is violated): \<open>Raises n\<close>
  says that the \<open>n\<close>-th call of the request does, counting from 1. \<open>No_data n\<close> says
  that the \<open>n\<close>-th call, an insert, returns no row and stores none. A handler receives
  the user that its dependency (\<^verbatim>\<open>get_current_tenant\<close>, \<^verbatim>\<open>get_current_landlord\<close>)
  has let through.
\<close>

datatype storage_fault = No_fault | Raises nat | No_data nat

text \<open>
  What \<^verbatim>\<open>.single().execute()\<close> gives for a query by key: the response with the row as
  its data, or the error that the client raises when the query selects no row. Keys
  are unique, so the first row with the key is the only one. A response without data
  is a value of the type that the handlers test for and that \<open>single\<close> never gives.
\<close>

datatype 'a api_response = Api_error | Data "'a option"

definition single :: "('a \<Rightarrow> bool) \<Rightarrow> 'a list \<Rightarrow> 'a api_response" where
  "single P rows = (case find P rows of None \<Rightarrow> Api_error | Some row \<Rightarrow> Data (Some row))"

section \<open>Profile completion (\<^verbatim>\<open>app/routes/tenants.py\<close>)\<close>

text \<open>Python's truth value of what \<^verbatim>\<open>dict.get\<close> returns.\<close>

definition truthy_float :: "real option \<Rightarrow> bool" where
  "truthy_float v = (case v of None \<Rightarrow> False | Some x \<Rightarrow> x \<noteq> 0)"

definition truthy_str :: "string option \<Rightarrow> bool" where
  "truthy_str v = (case v of None \<Rightarrow> False | Some s \<Rightarrow> s \<noteq> [])"

fun truthy_doc :: "doc_value option \<Rightarrow> bool" where
  "truthy_doc None = False"
| "truthy_doc (Some (Doc_str s)) = (s \<noteq> [])"
| "truthy_doc (Some (Doc_list l)) = (l \<noteq> [])"

text \<open>
  The two local flags of \<^verbatim>\<open>calculate_profile_completion\<close>; \<open>has_documents\<close> is only
  computed when \<^verbatim>\<open>documents\<close> is a dictionary.
\<close>

definition has_preferences :: "tenant \<Rightarrow> bool" where
  "has_preferences tenant_data =
     (truthy_float (budget tenant_data) \<and> truthy_str (preferred_location tenant_data))"

definition has_documents :: "tenant \<Rightarrow> bool" where
  "has_documents tenant_data =
     (case documents tenant_data of
        None \<Rightarrow> False
      | Some docs \<Rightarrow>
          truthy_doc (map_of docs ''id_document'') \<and> truthy_doc (map_of docs ''proof_of_income''))"

definition calculate_profile_completion :: "tenant \<Rightarrow> int" where
  "calculate_profile_completion tenant_data =
     (let completion = 0;
          completion = (if has_preferences tenant_data then 33 else completion);
          completion = (if has_documents tenant_data then 67 else completion);
          completion = (if onboarding_completed tenant_data then 100 else completion)
      in completion)"

text \<open>The profile of a tenant who has filled in nothing.\<close>

definition empty_profile :: "ident \<Rightarrow> tenant" where
  "empty_profile i =
     \<lparr>tenant_id = i, budget = None, preferred_location = None, tenant_preferences = None,
      documents = Some [], profile_completion = 0, onboarding_completed = False,
      profile_completed_at = None\<rparr>"

section \<open>Registration (\<^verbatim>\<open>app/routes/auth.py\<close>)\<close>

text \<open>
  \<^verbatim>\<open>register\<close>. Calls: 1 sign-up, 2 insert into \<^verbatim>\<open>users\<close>, 3 insert into
  \<^verbatim>\<open>tenants\<close> or \<^verbatim>\<open>landlords\<close>. Reading the token of a missing session raises.
\<close>

definition register :: "storage_fault \<Rightarrow> auth_response \<Rightarrow> user_type \<Rightarrow> db \<Rightarrow> (error + response) \<times> db" where
  "register fault auth_response utype db =
     (if fault = Raises 1 then (Inl Registration_failed, db)
      else case auth_user auth_response of
        None \<Rightarrow> (Inl Failed_to_create_user, db)
      | Some uid \<Rightarrow>
          let user_record = \<lparr>user_id = uid, user_type = utype, trust_score = 50,
                               verification_status = Verif_partial\<rparr>
          in if fault = Raises 2 then (Inl Registration_failed, db)
          else let db1 = db\<lparr>users := users db @ [user_record]\<rparr>
          in if fault = Raises 3 \<and> utype \<noteq> Admin then (Inl Registration_failed, db1)
          else let db2 =
                 (case utype of
                    Tenant \<Rightarrow> db1\<lparr>tenants := tenants db1 @ [empty_profile uid]\<rparr>
                  | Landlord \<Rightarrow>
                      db1\<lparr>landlords := landlords db1 @
                        [\<lparr>landlord_row_id = uid, guarantee_joined = False,
                          guarantee_contribution = 0\<rparr>]\<rparr>
                  | Admin \<Rightarrow> db1)
          in case access_token auth_response of
               None \<Rightarrow> (Inl Registration_failed, db2)
             | Some _ \<Rightarrow> (Inr (Registered user_record), db2))"

section \<open>Completing the profile (\<^verbatim>\<open>app/routes/tenants.py\<close>)\<close>

text \<open>The e-mail addresses that are given and not empty, in order.\<close>

definition references_of :: "complete_profile_data \<Rightarrow> string list" where
  "references_of profile_data =
     (case reference1_email profile_data of
        None \<Rightarrow> [] | Some e \<Rightarrow> if e \<noteq> [] then [e] else [])
     @ (case reference2_email profile_data of
        None \<Rightarrow> [] | Some e \<Rightarrow> if e \<noteq> [] then [e] else [])"

definition documents_of :: "complete_profile_data \<Rightarrow> (string \<times> doc_value) list" where
  "documents_of profile_data =
     [(''id_document'', Doc_str (id_document_url profile_data)),
      (''proof_of_income'', Doc_str (proof_of_income_url profile_data))]
     @ (if references_of profile_data \<noteq> []
        then [(''references'', Doc_list (references_of profile_data))] else [])"

text \<open>
  The row of \<^verbatim>\<open>tenants\<close> after \<^verbatim>\<open>update_dict\<close> of \<^verbatim>\<open>complete_profile\<close> has been
  written to it.
\<close>

definition update_dict :: "timestamp \<Rightarrow> complete_profile_data \<Rightarrow> tenant \<Rightarrow> tenant" where
  "update_dict completed_at profile_data t =
     t\<lparr>budget := Some (cp_budget profile_data),
       preferred_location := Some (cp_preferred_location profile_data),
       tenant_preferences :=
         Some \<lparr>bedrooms = cp_bedrooms profile_data,
               move_in_date = cp_move_in_date profile_data,
               join_rent_credit = cp_join_rent_credit profile_data\<rparr>,
       documents := Some (documents_of profile_data),
       profile_completion := 100,
       onboarding_completed := True,
       profile_completed_at := Some completed_at\<rparr>"

text \<open>
  \<^verbatim>\<open>complete_profile\<close>. Calls: 1 update of \<^verbatim>\<open>tenants\<close>, 2 update of \<^verbatim>\<open>users\<close>.
  The update of \<^verbatim>\<open>tenants\<close> returns the rows it changed. One reading of the clock.
\<close>

definition complete_profile ::
    "storage_fault \<Rightarrow> clock \<Rightarrow> complete_profile_data \<Rightarrow> user \<Rightarrow> db \<Rightarrow> (error + response) \<times> db" where
  "complete_profile fault now profile_data current_user db =
     (let tid = user_id current_user
      in if fault = Raises 1 then (Inl Complete_profile_failed, db)
      else let db1 = db\<lparr>tenants :=
                        map (\<lambda>t. if tenant_id t = tid then update_dict (now 1) profile_data t
                                  else t) (tenants db)\<rparr>
      in case filter (\<lambda>t. tenant_id t = tid) (tenants db1) of
           [] \<Rightarrow> (Inl Failed_to_complete_profile, db1)
         | row # _ \<Rightarrow>
             let new_trust_score = 70;
                 new_trust_score =
                   (if cp_join_rent_credit profile_data then new_trust_score + 10
                    else new_trust_score)
             in if fault = Raises 2 then (Inl Complete_profile_failed, db1)
             else let db2 = db1\<lparr>users :=
                     map (\<lambda>u. if user_id u = tid
                               then u\<lparr>trust_score := new_trust_score,
                                      verification_status := Verif_approved\<rparr>
                               else u) (users db1)\<rparr>
             in (Inr (Profile_completed row new_trust_score), db2))"

section \<open>The application lifecycle (\<^verbatim>\<open>app/routes/applications.py\<close>)\<close>

text \<open>
  The row that the insert of \<^verbatim>\<open>app_dict\<close> returns, and the row that the insert of
  \<^verbatim>\<open>transaction_dict\<close> returns, each with the key the store gave it.
\<close>

definition app_dict :: "ident \<Rightarrow> ident \<Rightarrow> application_create \<Rightarrow> application" where
  "app_dict key tid application_data =
     \<lparr>app_id = key, app_tenant_id = tid, app_property_id = property_id application_data,
      app_status = Submitted, message = ac_message application_data,
      proposed_move_in_date = ac_proposed_move_in_date application_data,
      rejection_reason = None, reason_code = None, reviewed_at = None, reviewed_by = None\<rparr>"

definition transaction_dict ::
    "ident \<Rightarrow> timestamp \<Rightarrow> application \<Rightarrow> ident \<Rightarrow> property \<Rightarrow> application_create \<Rightarrow> transaction" where
  "transaction_dict key now application tid property_data application_data =
     \<lparr>txn_id = key, txn_application_id = app_id application, txn_tenant_id = tid,
      txn_landlord_id = landlord_id property_data,
      txn_property_id = property_id application_data, amount = rent_amount property_data,
      currency = ''NGN'', txn_status = Held, payment_gateway = ''paystack'',
      transaction_type = ''rent_payment'', held_at = Some now, released_at = None,
      refunded_at = None, txn_notes = ''Mock escrow - payment held pending approval''\<rparr>"

text \<open>
  \<^verbatim>\<open>create_application\<close>. Calls: 1 read of the tenant's \<^verbatim>\<open>profile_completion\<close>,
  2 read of the property, 3 read of the tenant's applications for the property, 4 insert
  into \<^verbatim>\<open>applications\<close>, 5 insert into \<^verbatim>\<open>transactions\<close>, 6 read of the property's
  \<^verbatim>\<open>application_count\<close>, 7 update of the property. Calls 1, 2 and 6 read with
  \<^verbatim>\<open>single()\<close>; an error that the client raises there ends in the
  \<^verbatim>\<open>except Exception\<close> clause like any other. One reading of the clock.
\<close>

definition create_application ::
    "storage_fault \<Rightarrow> clock \<Rightarrow> application_create \<Rightarrow> user \<Rightarrow> db \<Rightarrow> (error + response) \<times> db" where
  "create_application fault now application_data current_user db =
     (let tid = user_id current_user;
          pid = property_id application_data
      in if fault = Raises 1 then (Inl Submit_failed, db)
      else case single (\<lambda>t. tenant_id t = tid) (tenants db) of
        Api_error \<Rightarrow> (Inl Submit_failed, db)
      | Data tenant_profile \<Rightarrow>
      if (case tenant_profile of
            None \<Rightarrow> True | Some profile \<Rightarrow> profile_completion profile < 100)
        then (Inl Profile_incomplete, db)
      else if fault = Raises 2 then (Inl Submit_failed, db)
      else case single (\<lambda>p. prop_id p = pid) (properties db) of
        Api_error \<Rightarrow> (Inl Submit_failed, db)
      | Data None \<Rightarrow> (Inl Property_not_found, db)
      | Data (Some property_data) \<Rightarrow>
          if fault = Raises 3 then (Inl Submit_failed, db)
          else if filter (\<lambda>a. app_tenant_id a = tid \<and> app_property_id a = pid)
                    (applications db) \<noteq> []
            then (Inl Duplicate_application, db)
          else if fault = Raises 4 then (Inl Submit_failed, db)
          else if fault = No_data 4 then (Inl Failed_to_create_application, db)
          else
            let application = app_dict (next_id db) tid application_data;
                db1 = db\<lparr>applications := applications db @ [application],
                         next_id := Suc (next_id db)\<rparr>
            in if fault = Raises 5 then (Inl Submit_failed, db1)
            else
              let transaction =
                    transaction_dict (next_id db1) (now 1) application tid property_data
                      application_data;
                  db2 = (if fault = No_data 5 then db1
                         else db1\<lparr>transactions := transactions db1 @ [transaction],
                                  next_id := Suc (next_id db1)\<rparr>);
                  transaction_response =
                    (if fault = No_data 5 then None else Some transaction)
              in if fault = Raises 6 then (Inl Submit_failed, db2)
              else case single (\<lambda>p. prop_id p = pid) (properties db2) of
                Api_error \<Rightarrow> (Inl Submit_failed, db2)
              | Data None \<Rightarrow> (Inl Submit_failed, db2)
              | Data (Some counted) \<Rightarrow>
                  if fault = Raises 7 then (Inl Submit_failed, db2)
                  else
                    let db3 = db2\<lparr>properties :=
                          map (\<lambda>p. if prop_id p = pid
                                    then p\<lparr>application_count := application_count counted + 1\<rparr>
                                    else p) (properties db2)\<rparr>
                    in (Inr (Application_submitted application transaction_response), db3))"

text \<open>
  \<^verbatim>\<open>approve_application\<close>. Calls: 1 read, with \<^verbatim>\<open>single()\<close>, of the application
  with its property, 2 update of the application, 3 update of its transactions, 4 update
  of the property. Two readings of the clock: the time of review, then the time of
  release.
\<close>

definition approve_application ::
    "storage_fault \<Rightarrow> clock \<Rightarrow> ident \<Rightarrow> user \<Rightarrow> db \<Rightarrow> (error + response) \<times> db" where
  "approve_application fault now application_id current_user db =
     (let lid = user_id current_user
      in if fault = Raises 1 then (Inl Approve_failed, db)
      else case single (\<lambda>a. app_id a = application_id) (applications db) of
        Api_error \<Rightarrow> (Inl Approve_failed, db)
      | Data None \<Rightarrow> (Inl Application_not_found, db)
      | Data (Some application) \<Rightarrow>
          if (case find (\<lambda>p. prop_id p = app_property_id application) (properties db) of
                None \<Rightarrow> True | Some property_data \<Rightarrow> landlord_id property_data \<noteq> lid)
            then (Inl Forbidden_approve, db)
          else if app_status application \<notin> {Submitted, Under_review}
            then (Inl (Invalid_transition (app_status application)), db)
          else if fault = Raises 2 then (Inl Approve_failed, db)
          else
            let db1 = db\<lparr>applications :=
                  map (\<lambda>a. if app_id a = application_id
                            then a\<lparr>app_status := Approved, reviewed_at := Some (now 1),
                                   reviewed_by := Some lid\<rparr>
                            else a) (applications db)\<rparr>
            in if fault = Raises 3 then (Inl Approve_failed, db1)
            else
              let db2 = db1\<lparr>transactions :=
                    map (\<lambda>t. if txn_application_id t = application_id
                              then t\<lparr>txn_status := Released, released_at := Some (now 2)\<rparr>
                              else t) (transactions db1)\<rparr>
              in if fault = Raises 4 then (Inl Approve_failed, db2)
              else
                let db3 = db2\<lparr>properties :=
                      map (\<lambda>p. if prop_id p = app_property_id application
                                then p\<lparr>prop_status := Rented\<rparr> else p) (properties db2)\<rparr>
                in (Inr Application_approved, db3))"

text \<open>
  \<^verbatim>\<open>reject_application\<close>. Calls: 1 read, with \<^verbatim>\<open>single()\<close>, of the application
  with its property, 2 update of the application, 3 update of its transactions. Two
  readings of the clock: the time of review, then the time of refund.
\<close>

definition reject_application ::
    "storage_fault \<Rightarrow> clock \<Rightarrow> ident \<Rightarrow> application_reject \<Rightarrow> user \<Rightarrow> db
      \<Rightarrow> (error + response) \<times> db" where
  "reject_application fault now application_id rejection_data current_user db =
     (let lid = user_id current_user
      in if fault = Raises 1 then (Inl Reject_failed, db)
      else case single (\<lambda>a. app_id a = application_id) (applications db) of
        Api_error \<Rightarrow> (Inl Reject_failed, db)
      | Data None \<Rightarrow> (Inl Application_not_found, db)
      | Data (Some application) \<Rightarrow>
          if (case find (\<lambda>p. prop_id p = app_property_id application) (properties db) of
                None \<Rightarrow> True | Some property_data \<Rightarrow> landlord_id property_data \<noteq> lid)
            then (Inl Forbidden_reject, db)
          else if app_status application \<notin> {Submitted, Under_review}
            then (Inl (Invalid_transition (app_status application)), db)
          else if fault = Raises 2 then (Inl Reject_failed, db)
          else
            let db1 = db\<lparr>applications :=
                  map (\<lambda>a. if app_id a = application_id
                            then a\<lparr>app_status := Rejected,
                                   rejection_reason := Some (reason rejection_data),
                                   reason_code := Some (ar_reason_code rejection_data),
                                   reviewed_at := Some (now 1), reviewed_by := Some lid\<rparr>
                            else a) (applications db)\<rparr>
            in if fault = Raises 3 then (Inl Reject_failed, db1)
            else
              let db2 = db1\<lparr>transactions :=
                    map (\<lambda>t. if txn_application_id t = application_id
                              then t\<lparr>txn_status := Refunded, refunded_at := Some (now 2)\<rparr>
                              else t) (transactions db1)\<rparr>
              in (Inr Application_rejected, db2))"

section \<open>Consistency of the escrow ledger with the applications\<close>

text \<open>The status a transaction has when its application has the given status.\<close>

fun expected_escrow :: "application_status \<Rightarrow> transaction_status" where
  "expected_escrow Submitted = Held"
| "expected_escrow Under_review = Held"
| "expected_escrow Approved = Released"
| "expected_escrow Rejected = Refunded"

text \<open>Every transaction has the status that the status of its application gives.\<close>

definition escrow_consistent :: "db \<Rightarrow> bool" where
  "escrow_consistent db =
     (\<forall>a \<in> set (applications db). \<forall>t \<in> set (transactions db).
        txn_application_id t = app_id a \<longrightarrow> txn_status t = expected_escrow (app_status a))"

text \<open>Every key of an application in use was issued by the store.\<close>

definition keys_issued :: "db \<Rightarrow> bool" where
  "keys_issued db =
     ((\<forall>a \<in> set (applications db). app_id a < next_id db)
      \<and> (\<forall>t \<in> set (transactions db). txn_application_id t < next_id db))"

section \<open>Example states\<close>

text \<open>A clock that reads the given time first and a unit later at each further reading.\<close>

definition clock_from :: "timestamp \<Rightarrow> clock" where
  "clock_from t n = t + (n - 1)"

text \<open>
  Tenant 1 has completed the profile, tenant 3 only step 1; landlord 2 owns property 7,
  which rents for 150000; landlord 4 owns nothing.
\<close>

definition tenant_user :: user where
  "tenant_user = \<lparr>user_id = 1, user_type = Tenant, trust_score = 80,
                   verification_status = Verif_approved\<rparr>"

definition owner_user :: user where
  "owner_user = \<lparr>user_id = 2, user_type = Landlord, trust_score = 50,
                  verification_status = Verif_partial\<rparr>"

definition novice_user :: user where
  "novice_user = \<lparr>user_id = 3, user_type = Tenant, trust_score = 50,
                   verification_status = Verif_partial\<rparr>"

definition other_landlord :: user where
  "other_landlord = \<lparr>user_id = 4, user_type = Landlord, trust_score = 50,
                      verification_status = Verif_partial\<rparr>"

definition step1_profile :: tenant where
  "step1_profile = (empty_profile 3)
     \<lparr>budget := Some 90000, preferred_location := Some ''Lagos'', profile_completion := 33\<rparr>"

definition step2_documents :: "(string \<times> doc_value) list" where
  "step2_documents = [(''id_document'', Doc_str ''id.png''),
                      (''proof_of_income'', Doc_str ''pay.pdf'')]"

definition step2_profile :: tenant where
  "step2_profile = step1_profile
     \<lparr>budget := None, documents := Some step2_documents, profile_completion := 67\<rparr>"

definition complete_profile_row :: tenant where
  "complete_profile_row =
     \<lparr>tenant_id = 1, budget = Some 150000, preferred_location = Some ''Lagos'',
      tenant_preferences =
        Some \<lparr>bedrooms = 2, move_in_date = None, join_rent_credit = True\<rparr>,
      documents = Some [(''id_document'', Doc_str ''id.png''),
                        (''proof_of_income'', Doc_str ''pay.pdf'')],
      profile_completion = 100, onboarding_completed = True,
      profile_completed_at = Some 5\<rparr>"

definition flat :: property where
  "flat = \<lparr>prop_id = 7, landlord_id = 2, rent_amount = 150000, prop_status = Active,
            application_count = 0\<rparr>"

definition db_listed :: db where
  "db_listed =
     \<lparr>users = [tenant_user, owner_user, novice_user, other_landlord],
      tenants = [complete_profile_row, step1_profile], landlords = [],
      properties = [flat], applications = [], transactions = [], next_id = 10\<rparr>"

definition flat_request :: application_create where
  "flat_request = \<lparr>property_id = 7, ac_message = Some ''hello'',
                    ac_proposed_move_in_date = None\<rparr>"

definition flat_application :: application where
  "flat_application =
     \<lparr>app_id = 10, app_tenant_id = 1, app_property_id = 7, app_status = Submitted,
      message = Some ''hello'', proposed_move_in_date = None, rejection_reason = None,
      reason_code = None, reviewed_at = None, reviewed_by = None\<rparr>"

definition flat_escrow :: transaction where
  "flat_escrow =
     \<lparr>txn_id = 11, txn_application_id = 10, txn_tenant_id = 1, txn_landlord_id = 2,
      txn_property_id = 7, amount = 150000, currency = ''NGN'', txn_status = Held,
      payment_gateway = ''paystack'', transaction_type = ''rent_payment'',
      held_at = Some 20, released_at = None, refunded_at = None,
      txn_notes = ''Mock escrow - payment held pending approval''\<rparr>"

text \<open>The state after tenant 1 has applied for the flat, and after the landlord's answer.\<close>

definition db_submitted :: db where
  "db_submitted = db_listed
     \<lparr>properties := [flat\<lparr>application_count := 1\<rparr>],
      applications := [flat_application], transactions := [flat_escrow], next_id := 12\<rparr>"

definition not_eligible :: application_reject where
  "not_eligible = \<lparr>reason = ''not eligible'', ar_reason_code = ''R1''\<rparr>"

definition db_rejected :: db where
  "db_rejected = db_submitted
     \<lparr>applications :=
        [flat_application\<lparr>app_status := Rejected, rejection_reason := Some ''not eligible'',
           reason_code := Some ''R1'', reviewed_at := Some 30, reviewed_by := Some 2\<rparr>],
      transactions := [flat_escrow\<lparr>txn_status := Refunded, refunded_at := Some 31\<rparr>]\<rparr>"

text \<open>An application inserted without its transaction; an approval cut short.\<close>

definition db_half_submitted :: db where
  "db_half_submitted = db_listed\<lparr>applications := [flat_application], next_id := 11\<rparr>"

definition db_half_approved :: db where
  "db_half_approved = db_submitted
     \<lparr>applications :=
        [flat_application\<lparr>app_status := Approved, reviewed_at := Some 30,
           reviewed_by := Some 2\<rparr>]\<rparr>"

definition rejected_application :: application where
  "rejected_application = flat_application
     \<lparr>app_status := Rejected, rejection_reason := Some ''not eligible'',
      reason_code := Some ''R1'', reviewed_at := Some 30, reviewed_by := Some 2\<rparr>"

text \<open>A sign-up, and the wizard's data with and without the rent-credit programme.\<close>

definition signup :: auth_response where
  "signup = \<lparr>auth_user = Some 5, access_token = Some ''token''\<rparr>"

definition plain_data :: complete_profile_data where
  "plain_data =
     \<lparr>cp_budget = 90000, cp_preferred_location = ''Lagos'', cp_bedrooms = 1,
      cp_move_in_date = None, id_document_url = ''id.png'',
      proof_of_income_url = ''pay.pdf'', reference1_email = Some ''ref@example.org'',
      reference2_email = None, cp_join_rent_credit = False\<rparr>"

definition rent_credit_data :: complete_profile_data where
  "rent_credit_data = plain_data\<lparr>cp_join_rent_credit := True\<rparr>"

text \<open>Tenant 3's completion cut short after the write of the profile.\<close>

definition novice_completed_row :: tenant where
  "novice_completed_row = update_dict 25 rent_credit_data step1_profile"

definition db_half_completed :: db where
  "db_half_completed = db_listed\<lparr>tenants := [complete_profile_row, novice_completed_row]\<rparr>"

section \<open>Unfolding the examples\<close>

lemmas example_defs =
  tenant_user_def owner_user_def novice_user_def other_landlord_def step1_profile_def
  step2_profile_def complete_profile_row_def flat_def db_listed_def flat_request_def
  flat_application_def flat_escrow_def db_submitted_def not_eligible_def db_rejected_def
  empty_profile_def db_half_submitted_def db_half_approved_def rejected_application_def
  signup_def plain_data_def rent_credit_data_def step2_documents_def clock_from_def
  novice_completed_row_def db_half_completed_def

section \<open>Properties of profile completion\<close>

lemma calculate_profile_completion_cases:
  "calculate_profile_completion t =
     (if onboarding_completed t then 100
      else if has_documents t then 67
      else if has_preferences t then 33 else 0)"
  by (simp add: calculate_profile_completion_def)

text \<open>
  Claim C8. The completion percentage is a function of the profile's fields alone. It is
  0 for the empty profile, at least 33 when budget and preferred location are both
  present, at least 67 when the identity document and the proof of income are both
  present in the documents (whatever the step-1 fields), exactly 100 when onboarding is
  completed, and it does not decrease when every step that is complete stays complete.
  A field is present when Python takes its value for true, which is how the code tests
  it: a budget of 0 and an empty string count as missing, as in the list of missing
  fields of \<^verbatim>\<open>get_profile_status\<close>.
\<close>

theorem calculate_profile_completion_steps:
  "calculate_profile_completion (empty_profile i) = 0
   \<and> (truthy_float (budget p) \<and> truthy_str (preferred_location p) \<longrightarrow>
        33 \<le> calculate_profile_completion p)
   \<and> (documents d = Some docs \<and> truthy_doc (map_of docs ''id_document'')
        \<and> truthy_doc (map_of docs ''proof_of_income'') \<longrightarrow>
        67 \<le> calculate_profile_completion d)
   \<and> (onboarding_completed c \<longrightarrow> calculate_profile_completion c = 100)
   \<and> ((has_preferences t \<longrightarrow> has_preferences t')
        \<and> (has_documents t \<longrightarrow> has_documents t')
        \<and> (onboarding_completed t \<longrightarrow> onboarding_completed t')
      \<longrightarrow> calculate_profile_completion t \<le> calculate_profile_completion t')"
  by (auto simp add: calculate_profile_completion_cases empty_profile_def
      has_preferences_def has_documents_def truthy_float_def truthy_str_def)

theorem calculate_profile_completion_steps_witness:
  "calculate_profile_completion (empty_profile 3) = 0
   \<and> truthy_float (budget step1_profile) \<and> truthy_str (preferred_location step1_profile)
   \<and> 33 \<le> calculate_profile_completion step1_profile
   \<and> documents step2_profile = Some step2_documents
   \<and> truthy_doc (map_of step2_documents ''id_document'')
   \<and> truthy_doc (map_of step2_documents ''proof_of_income'')
   \<and> budget step2_profile = None
   \<and> 67 \<le> calculate_profile_completion step2_profile
   \<and> onboarding_completed complete_profile_row
   \<and> calculate_profile_completion complete_profile_row = 100
   \<and> calculate_profile_completion step1_profile \<le> calculate_profile_completion complete_profile_row"
  using calculate_profile_completion_steps
    [of 3 step1_profile step2_profile step2_documents complete_profile_row step1_profile
      complete_profile_row]
  by (simp add: example_defs has_preferences_def has_documents_def truthy_float_def truthy_str_def)

section \<open>The profile gate of \<^verbatim>\<open>create_application\<close>\<close>

text \<open>
  Claim C4. When the tenant's stored profile completion is below 100, submitting an
  application fails with the profile-incomplete error (status 403) and the store is left
  as it was: no application, no transaction, no change of a property's counter. The
  read of the profile is the request's first call to the store and is taken to return.
\<close>

theorem create_application_profile_incomplete:
  assumes "find (\<lambda>t. tenant_id t = user_id current_user) (tenants db) = Some p"
    and "profile_completion p < 100"
    and "fault \<noteq> Raises 1"
  shows "create_application fault now application_data current_user db
           = (Inl Profile_incomplete, db)
         \<and> status_code Profile_incomplete = 403"
  using assms by (simp add: create_application_def single_def)

theorem create_application_profile_incomplete_witness:
  "find (\<lambda>t. tenant_id t = user_id novice_user) (tenants db_listed) = Some step1_profile
   \<and> profile_completion step1_profile < 100
   \<and> create_application No_fault (clock_from 20) flat_request novice_user db_listed
       = (Inl Profile_incomplete, db_listed)"
proof -
  have f: "find (\<lambda>t. tenant_id t = user_id novice_user) (tenants db_listed) = Some step1_profile"
    by (simp add: example_defs)
  have c: "profile_completion step1_profile < 100"
    by (simp add: example_defs)
  have n: "No_fault \<noteq> Raises 1" by simp
  from create_application_profile_incomplete [OF f c n, of "clock_from 20" flat_request] f c
  show ?thesis by simp
qed

section \<open>Reading and updating rows by key\<close>

lemma find_map_keeping:
  assumes "\<And>x. Q (g x) = Q x"
  shows "find Q (map g xs) = map_option g (find Q xs)"
  using assms by (induction xs) simp_all

lemma find_Some_holds: "find Q xs = Some x \<Longrightarrow> Q x"
  by (induction xs) (auto split: if_splits)

lemma updated_rows:
  assumes "y \<in> set (map (\<lambda>x. if K x then f x else x) xs)" and "K y"
    and "\<And>x. K x \<Longrightarrow> P (f x)"
  shows "P y"
proof -
  from assms(1) have "\<exists>x \<in> set xs. y = (if K x then f x else x)"
    by auto
  then obtain x where y: "y = (if K x then f x else x)"
    by blast
  show ?thesis
  proof (cases "K x")
    case True
    with y assms(3) show ?thesis by simp
  next
    case False
    with y assms(2) show ?thesis by simp
  qed
qed

section \<open>Approval and rejection\<close>

text \<open>
  Claim C5. Approval and rejection fire once: for an application that is already approved
  or rejected, a further approve or reject call by the landlord who owns the property
  returns the invalid-transition error and leaves the store, hence the application, its
  transaction and the property, as it was.
\<close>

theorem terminal_application_single_fire:
  assumes "find (\<lambda>a. app_id a = application_id) (applications db) = Some a"
    and "find (\<lambda>p. prop_id p = app_property_id a) (properties db) = Some p"
    and "landlord_id p = user_id current_user"
    and "app_status a = Approved \<or> app_status a = Rejected"
    and "fault \<noteq> Raises 1"
  shows "approve_application fault now application_id current_user db
           = (Inl (Invalid_transition (app_status a)), db)
         \<and> reject_application fault now application_id rejection_data current_user db
           = (Inl (Invalid_transition (app_status a)), db)"
  using assms by (auto simp add: approve_application_def single_def reject_application_def)

theorem terminal_application_single_fire_witness:
  "approve_application No_fault (clock_from 40) 10 owner_user db_rejected
     = (Inl (Invalid_transition Rejected), db_rejected)
   \<and> reject_application No_fault (clock_from 40) 10 not_eligible owner_user db_rejected
     = (Inl (Invalid_transition Rejected), db_rejected)"
proof -
  let ?a = "flat_application\<lparr>app_status := Rejected, rejection_reason := Some ''not eligible'',
           reason_code := Some ''R1'', reviewed_at := Some 30, reviewed_by := Some 2\<rparr>"
  let ?p = "flat\<lparr>application_count := 1\<rparr>"
  have a: "find (\<lambda>a. app_id a = 10) (applications db_rejected) = Some ?a"
    by (simp add: example_defs)
  have p: "find (\<lambda>p. prop_id p = app_property_id ?a) (properties db_rejected) = Some ?p"
    by (simp add: example_defs)
  have l: "landlord_id ?p = user_id owner_user"
    by (simp add: example_defs)
  have s: "app_status ?a = Approved \<or> app_status ?a = Rejected"
    by simp
  have n: "No_fault \<noteq> Raises 1" by simp
  from terminal_application_single_fire [OF a p l s n, of "clock_from 40" not_eligible]
  show ?thesis by simp
qed



text \<open>
  Claim C6. For an application that is submitted or under review, an approve call by the
  landlord who owns its property succeeds; afterwards the application is approved, with
  the landlord as reviewer and the time of review recorded, every transaction of the
  application is released, and the property is rented.
\<close>

theorem approve_application_effect:
  assumes "find (\<lambda>a. app_id a = application_id) (applications db) = Some a"
    and "find (\<lambda>p. prop_id p = app_property_id a) (properties db) = Some p"
    and "landlord_id p = user_id current_user"
    and "app_status a = Submitted \<or> app_status a = Under_review"
    and "fault \<notin> {Raises 1, Raises 2, Raises 3, Raises 4}"
  shows "\<exists>db'. approve_application fault now application_id current_user db
                 = (Inr Application_approved, db')
          \<and> find (\<lambda>a. app_id a = application_id) (applications db')
              = Some (a\<lparr>app_status := Approved, reviewed_at := Some (now 1),
                        reviewed_by := Some (user_id current_user)\<rparr>)
          \<and> (\<forall>t \<in> set (transactions db').
                txn_application_id t = application_id \<longrightarrow> txn_status t = Released)
          \<and> find (\<lambda>t. txn_application_id t = application_id) (transactions db')
              = map_option (\<lambda>t. t\<lparr>txn_status := Released, released_at := Some (now 2)\<rparr>)
                  (find (\<lambda>t. txn_application_id t = application_id) (transactions db))
          \<and> find (\<lambda>p. prop_id p = app_property_id a) (properties db')
              = Some (p\<lparr>prop_status := Rented\<rparr>)"
proof -
  define upd_a where "upd_a = (\<lambda>a::application. if app_id a = application_id
                    then a\<lparr>app_status := Approved, reviewed_at := Some (now 1),
                           reviewed_by := Some (user_id current_user)\<rparr> else a)"
  define upd_t where "upd_t = (\<lambda>t::transaction. if txn_application_id t = application_id
                    then t\<lparr>txn_status := Released, released_at := Some (now 2)\<rparr> else t)"
  define upd_p where "upd_p = (\<lambda>q::property. if prop_id q = app_property_id a
                    then q\<lparr>prop_status := Rented\<rparr> else q)"
  define db' where "db' = db\<lparr>applications := map upd_a (applications db),
                 transactions := map upd_t (transactions db),
                 properties := map upd_p (properties db)\<rparr>"
  have run: "approve_application fault now application_id current_user db
               = (Inr Application_approved, db')"
    using assms
    by (simp add: approve_application_def single_def db'_def upd_a_def upd_t_def upd_p_def)
  have sel: "applications db' = map upd_a (applications db)"
    "transactions db' = map upd_t (transactions db)"
    "properties db' = map upd_p (properties db)"
    by (simp_all add: db'_def)
  have ida: "app_id a = application_id"
    using find_Some_holds [OF assms(1)] .
  have idp: "prop_id p = app_property_id a"
    using find_Some_holds [OF assms(2)] .
  have fa: "find (\<lambda>a. app_id a = application_id) (map upd_a (applications db))
              = map_option upd_a (find (\<lambda>a. app_id a = application_id) (applications db))"
    by (rule find_map_keeping) (simp add: upd_a_def)
  have ft: "find (\<lambda>t. txn_application_id t = application_id) (map upd_t (transactions db))
              = map_option upd_t
                  (find (\<lambda>t. txn_application_id t = application_id) (transactions db))"
    by (rule find_map_keeping) (simp add: upd_t_def)
  have ft': "map_option upd_t (find (\<lambda>t. txn_application_id t = application_id) (transactions db))
      = map_option (\<lambda>t. t\<lparr>txn_status := Released, released_at := Some (now 2)\<rparr>)
          (find (\<lambda>t. txn_application_id t = application_id) (transactions db))"
  proof (cases "find (\<lambda>t. txn_application_id t = application_id) (transactions db)")
    case None
    then show ?thesis by simp
  next
    case (Some t)
    from find_Some_holds [OF Some] have "txn_application_id t = application_id" .
    with Some show ?thesis by (simp add: upd_t_def)
  qed
  have fp: "find (\<lambda>q. prop_id q = app_property_id a) (map upd_p (properties db))
              = map_option upd_p (find (\<lambda>q. prop_id q = app_property_id a) (properties db))"
    by (rule find_map_keeping) (simp add: upd_p_def)
  have c1: "find (\<lambda>a. app_id a = application_id) (applications db')
          = Some (a\<lparr>app_status := Approved, reviewed_at := Some (now 1),
                    reviewed_by := Some (user_id current_user)\<rparr>)"
    using fa assms(1) ida by (simp add: sel upd_a_def)
  have c2: "\<forall>t \<in> set (transactions db').
                   txn_application_id t = application_id \<longrightarrow> txn_status t = Released"
  proof (intro ballI impI)
    fix t
    assume "t \<in> set (transactions db')" and key: "txn_application_id t = application_id"
    then obtain t0 where t0: "t = upd_t t0"
      by (auto simp add: sel)
    show "txn_status t = Released"
    proof (cases "txn_application_id t0 = application_id")
      case True
      then show ?thesis by (simp add: t0 upd_t_def)
    next
      case False
      with key show ?thesis by (simp add: t0 upd_t_def)
    qed
  qed
  have c3: "find (\<lambda>t. txn_application_id t = application_id) (transactions db')
          = map_option (\<lambda>t. t\<lparr>txn_status := Released, released_at := Some (now 2)\<rparr>)
              (find (\<lambda>t. txn_application_id t = application_id) (transactions db))"
    using ft ft' by (simp add: sel)
  have c4: "find (\<lambda>p. prop_id p = app_property_id a) (properties db')
          = Some (p\<lparr>prop_status := Rented\<rparr>)"
    using fp assms(2) idp by (simp add: sel upd_p_def)
  show ?thesis
  proof (intro exI conjI)
    show "approve_application fault now application_id current_user db
            = (Inr Application_approved, db')"
      by (rule run)
  qed (rule c1 c2 c3 c4)+
qed


theorem approve_application_effect_witness:
  "find (\<lambda>a. app_id a = 10) (applications db_submitted) = Some flat_application
   \<and> find (\<lambda>p. prop_id p = app_property_id flat_application) (properties db_submitted)
       = Some (flat\<lparr>application_count := 1\<rparr>)
   \<and> landlord_id (flat\<lparr>application_count := 1\<rparr>) = user_id owner_user
   \<and> app_status flat_application = Submitted
   \<and> fst (approve_application No_fault (clock_from 30) 10 owner_user db_submitted) = Inr Application_approved
   \<and> find (\<lambda>a. app_id a = 10)
         (applications (snd (approve_application No_fault (clock_from 30) 10 owner_user db_submitted)))
       = Some (flat_application\<lparr>app_status := Approved, reviewed_at := Some 30,
                 reviewed_by := Some 2\<rparr>)
   \<and> find (\<lambda>t. txn_application_id t = 10)
         (transactions (snd (approve_application No_fault (clock_from 30) 10 owner_user db_submitted)))
       = Some (flat_escrow\<lparr>txn_status := Released, released_at := Some 31\<rparr>)
   \<and> find (\<lambda>p. prop_id p = app_property_id flat_application)
         (properties (snd (approve_application No_fault (clock_from 30) 10 owner_user db_submitted)))
       = Some (flat\<lparr>application_count := 1, prop_status := Rented\<rparr>)"
proof -
  have a: "find (\<lambda>a. app_id a = 10) (applications db_submitted) = Some flat_application"
    by (simp add: example_defs)
  have p: "find (\<lambda>p. prop_id p = app_property_id flat_application) (properties db_submitted)
             = Some (flat\<lparr>application_count := 1\<rparr>)"
    by (simp add: example_defs)
  have l: "landlord_id (flat\<lparr>application_count := 1\<rparr>) = user_id owner_user"
    by (simp add: example_defs)
  have s: "app_status flat_application = Submitted \<or> app_status flat_application = Under_review"
    by (simp add: example_defs)
  have n: "No_fault \<notin> {Raises 1, Raises 2, Raises 3, Raises 4}"
    by simp
  have s': "app_status flat_application = Submitted"
    by (simp add: example_defs)
  have t: "find (\<lambda>t. txn_application_id t = 10) (transactions db_submitted) = Some flat_escrow"
    by (simp add: example_defs)
  have readings: "clock_from 30 1 = 30" "clock_from 30 2 = 31"
    by (simp_all add: clock_from_def)
  have u: "user_id owner_user = 2"
    by (simp add: example_defs)
  from approve_application_effect [OF a p l s n, of "clock_from 30"]
  obtain db' where run: "approve_application No_fault (clock_from 30) 10 owner_user db_submitted
                           = (Inr Application_approved, db')"
    and a': "find (\<lambda>a. app_id a = 10) (applications db')
              = Some (flat_application\<lparr>app_status := Approved, reviewed_at := Some 30,
                        reviewed_by := Some (user_id owner_user)\<rparr>)"
    and t': "find (\<lambda>t. txn_application_id t = 10) (transactions db')
              = map_option (\<lambda>t. t\<lparr>txn_status := Released, released_at := Some 31\<rparr>)
                  (find (\<lambda>t. txn_application_id t = 10) (transactions db_submitted))"
    and p': "find (\<lambda>p. prop_id p = app_property_id flat_application) (properties db')
              = Some (flat\<lparr>application_count := 1, prop_status := Rented\<rparr>)"
    unfolding readings by auto
  from a p l s' a' t' p' show ?thesis
    unfolding run fst_conv snd_conv t u by simp
qed

text \<open>
  Claim C7. For an application that is submitted or under review, a reject call by the
  landlord who owns its property succeeds; afterwards the application is rejected and
  holds the given reason and reason code, every transaction of the application is
  refunded, and the table of properties, so each property's status and counters, is as
  it was.
\<close>

theorem reject_application_effect:
  assumes "find (\<lambda>a. app_id a = application_id) (applications db) = Some a"
    and "find (\<lambda>p. prop_id p = app_property_id a) (properties db) = Some p"
    and "landlord_id p = user_id current_user"
    and "app_status a = Submitted \<or> app_status a = Under_review"
    and "fault \<notin> {Raises 1, Raises 2, Raises 3}"
  shows "\<exists>db'. reject_application fault now application_id rejection_data current_user db
                 = (Inr Application_rejected, db')
          \<and> find (\<lambda>a. app_id a = application_id) (applications db')
              = Some (a\<lparr>app_status := Rejected,
                        rejection_reason := Some (reason rejection_data),
                        reason_code := Some (ar_reason_code rejection_data),
                        reviewed_at := Some (now 1),
                        reviewed_by := Some (user_id current_user)\<rparr>)
          \<and> (\<forall>t \<in> set (transactions db').
                txn_application_id t = application_id \<longrightarrow> txn_status t = Refunded)
          \<and> find (\<lambda>t. txn_application_id t = application_id) (transactions db')
              = map_option (\<lambda>t. t\<lparr>txn_status := Refunded, refunded_at := Some (now 2)\<rparr>)
                  (find (\<lambda>t. txn_application_id t = application_id) (transactions db))
          \<and> properties db' = properties db"
proof -
  define upd_a where "upd_a = (\<lambda>a::application. if app_id a = application_id
                    then a\<lparr>app_status := Rejected,
                           rejection_reason := Some (reason rejection_data),
                           reason_code := Some (ar_reason_code rejection_data),
                           reviewed_at := Some (now 1),
                           reviewed_by := Some (user_id current_user)\<rparr> else a)"
  define upd_t where "upd_t = (\<lambda>t::transaction. if txn_application_id t = application_id
                    then t\<lparr>txn_status := Refunded, refunded_at := Some (now 2)\<rparr> else t)"
  define db' where "db' = db\<lparr>applications := map upd_a (applications db),
                 transactions := map upd_t (transactions db)\<rparr>"
  have run: "reject_application fault now application_id rejection_data current_user db
               = (Inr Application_rejected, db')"
    using assms
    by (simp add: reject_application_def single_def db'_def upd_a_def upd_t_def)
  have sel: "applications db' = map upd_a (applications db)"
    "transactions db' = map upd_t (transactions db)"
    "properties db' = properties db"
    by (simp_all add: db'_def)
  have ida: "app_id a = application_id"
    using find_Some_holds [OF assms(1)] .
  have fa: "find (\<lambda>a. app_id a = application_id) (map upd_a (applications db))
              = map_option upd_a (find (\<lambda>a. app_id a = application_id) (applications db))"
    by (rule find_map_keeping) (simp add: upd_a_def)
  have ft: "find (\<lambda>t. txn_application_id t = application_id) (map upd_t (transactions db))
              = map_option upd_t
                  (find (\<lambda>t. txn_application_id t = application_id) (transactions db))"
    by (rule find_map_keeping) (simp add: upd_t_def)
  have ft': "map_option upd_t (find (\<lambda>t. txn_application_id t = application_id) (transactions db))
      = map_option (\<lambda>t. t\<lparr>txn_status := Refunded, refunded_at := Some (now 2)\<rparr>)
          (find (\<lambda>t. txn_application_id t = application_id) (transactions db))"
  proof (cases "find (\<lambda>t. txn_application_id t = application_id) (transactions db)")
    case None
    then show ?thesis by simp
  next
    case (Some t)
    from find_Some_holds [OF Some] have "txn_application_id t = application_id" .
    with Some show ?thesis by (simp add: upd_t_def)
  qed
  have c1: "find (\<lambda>a. app_id a = application_id) (applications db')
          = Some (a\<lparr>app_status := Rejected,
                    rejection_reason := Some (reason rejection_data),
                    reason_code := Some (ar_reason_code rejection_data),
                    reviewed_at := Some (now 1),
                    reviewed_by := Some (user_id current_user)\<rparr>)"
    using fa assms(1) ida by (simp add: sel upd_a_def)
  have c2: "\<forall>t \<in> set (transactions db').
                   txn_application_id t = application_id \<longrightarrow> txn_status t = Refunded"
  proof (intro ballI impI)
    fix t
    assume "t \<in> set (transactions db')" and key: "txn_application_id t = application_id"
    then have "t \<in> set (map (\<lambda>x. if txn_application_id x = application_id
                    then x\<lparr>txn_status := Refunded, refunded_at := Some (now 2)\<rparr> else x)
                  (transactions db))"
      by (simp add: sel upd_t_def)
    from this key show "txn_status t = Refunded"
      by (rule updated_rows) simp
  qed
  have c3: "find (\<lambda>t. txn_application_id t = application_id) (transactions db')
          = map_option (\<lambda>t. t\<lparr>txn_status := Refunded, refunded_at := Some (now 2)\<rparr>)
              (find (\<lambda>t. txn_application_id t = application_id) (transactions db))"
    using ft ft' by (simp add: sel)
  show ?thesis
  proof (intro exI conjI)
    show "reject_application fault now application_id rejection_data current_user db
            = (Inr Application_rejected, db')"
      by (rule run)
  qed (rule c1 c2 c3 sel(3))+
qed

theorem reject_application_effect_witness:
  "find (\<lambda>a. app_id a = 10) (applications db_submitted) = Some flat_application
   \<and> find (\<lambda>p. prop_id p = app_property_id flat_application) (properties db_submitted)
       = Some (flat\<lparr>application_count := 1\<rparr>)
   \<and> landlord_id (flat\<lparr>application_count := 1\<rparr>) = user_id owner_user
   \<and> app_status flat_application = Submitted
   \<and> fst (reject_application No_fault (clock_from 30) 10 not_eligible owner_user db_submitted)
       = Inr Application_rejected
   \<and> find (\<lambda>a. app_id a = 10)
         (applications (snd (reject_application No_fault (clock_from 30) 10 not_eligible owner_user db_submitted)))
       = Some rejected_application
   \<and> find (\<lambda>t. txn_application_id t = 10)
         (transactions (snd (reject_application No_fault (clock_from 30) 10 not_eligible owner_user db_submitted)))
       = Some (flat_escrow\<lparr>txn_status := Refunded, refunded_at := Some 31\<rparr>)
   \<and> properties (snd (reject_application No_fault (clock_from 30) 10 not_eligible owner_user db_submitted))
       = properties db_submitted"
proof -
  have a: "find (\<lambda>a. app_id a = 10) (applications db_submitted) = Some flat_application"
    by (simp add: example_defs)
  have p: "find (\<lambda>p. prop_id p = app_property_id flat_application) (properties db_submitted)
             = Some (flat\<lparr>application_count := 1\<rparr>)"
    by (simp add: example_defs)
  have l: "landlord_id (flat\<lparr>application_count := 1\<rparr>) = user_id owner_user"
    by (simp add: example_defs)
  have s: "app_status flat_application = Submitted \<or> app_status flat_application = Under_review"
    by (simp add: example_defs)
  have n: "No_fault \<notin> {Raises 1, Raises 2, Raises 3}"
    by simp
  have s': "app_status flat_application = Submitted"
    by (simp add: example_defs)
  have t: "find (\<lambda>t. txn_application_id t = 10) (transactions db_submitted) = Some flat_escrow"
    by (simp add: example_defs)
  have readings: "clock_from 30 1 = 30" "clock_from 30 2 = 31"
    by (simp_all add: clock_from_def)
  have r: "flat_application\<lparr>app_status := Rejected,
              rejection_reason := Some (reason not_eligible),
              reason_code := Some (ar_reason_code not_eligible),
              reviewed_at := Some 30, reviewed_by := Some (user_id owner_user)\<rparr>
           = rejected_application"
    by (simp add: example_defs)
  from reject_application_effect [OF a p l s n, of "clock_from 30" not_eligible]
  obtain db' where run: "reject_application No_fault (clock_from 30) 10 not_eligible owner_user db_submitted
                           = (Inr Application_rejected, db')"
    and a': "find (\<lambda>a. app_id a = 10) (applications db') = Some rejected_application"
    and t': "find (\<lambda>t. txn_application_id t = 10) (transactions db')
              = map_option (\<lambda>t. t\<lparr>txn_status := Refunded, refunded_at := Some 31\<rparr>)
                  (find (\<lambda>t. txn_application_id t = 10) (transactions db_submitted))"
    and p': "properties db' = properties db_submitted"
    unfolding readings r by auto
  from a p l s' a' t' p' show ?thesis
    unfolding run fst_conv snd_conv t by simp
qed

subsection \<open>The order of the refusals\<close>

text \<open>
  When the application exists and the caller does not own its property (or the property
  is gone), approve and reject answer with the forbidden error and leave the store
  unchanged, whatever the status of the application, so also when it is already
  approved or rejected: the ownership check comes before the status check.
\<close>

lemma forbidden_before_invalid_transition:
  assumes "fault \<noteq> Raises 1"
    and "find (\<lambda>a. app_id a = application_id) (applications db) = Some a"
    and "\<forall>p. find (\<lambda>p. prop_id p = app_property_id a) (properties db) = Some p
              \<longrightarrow> landlord_id p \<noteq> user_id current_user"
  shows "approve_application fault now application_id current_user db
           = (Inl Forbidden_approve, db)
         \<and> reject_application fault now application_id rejection_data current_user db
           = (Inl Forbidden_reject, db)"
proof -
  from assms(3) have not_owner:
    "(case find (\<lambda>p. prop_id p = app_property_id a) (properties db) of
        None \<Rightarrow> True | Some property_data \<Rightarrow> landlord_id property_data \<noteq> user_id current_user)"
    by (simp split: option.splits)
  from assms(1,2) not_owner show ?thesis
    by (simp add: approve_application_def reject_application_def single_def)
qed

lemma forbidden_for_terminal_application:
  "map app_status (applications db_rejected) = [Rejected]
   \<and> approve_application No_fault (clock_from 40) 10 other_landlord db_rejected
       = (Inl Forbidden_approve, db_rejected)
   \<and> reject_application No_fault (clock_from 40) 10 not_eligible other_landlord db_rejected
       = (Inl Forbidden_reject, db_rejected)"
  by (simp add: approve_application_def reject_application_def single_def example_defs)

text \<open>
  The read of the application raises when no row has the key, so both handlers answer
  a missing application from their \<^verbatim>\<open>except Exception\<close> clause, with status 400, and
  their own test for a response without data, which would answer 404, is never reached.
\<close>

lemma missing_application_fails:
  assumes "find (\<lambda>a. app_id a = application_id) (applications db) = None"
  shows "approve_application fault now application_id current_user db
           = (Inl Approve_failed, db)
         \<and> reject_application fault now application_id rejection_data current_user db
           = (Inl Reject_failed, db)"
  using assms
  by (simp add: approve_application_def reject_application_def single_def Let_def)

lemma application_not_found_unreachable:
  "fst (approve_application fault now application_id current_user db)
     \<noteq> Inl Application_not_found
   \<and> fst (reject_application fault now application_id rejection_data current_user db)
     \<noteq> Inl Application_not_found"
  by (simp add: approve_application_def reject_application_def single_def Let_def
      split: option.splits)

text \<open>
  Claim C10 says that a missing application gives the not-found error before any other
  check. The handlers do not: for the key 99, which no application of the store has, and
  with every call to the store answering, approve and reject fail with status 400 and
  not with the not-found error, whose status is 404.
\<close>

theorem missing_application_answers_400:
  "map app_id (applications db_rejected) = [10]
   \<and> approve_application No_fault (clock_from 40) 99 other_landlord db_rejected
       = (Inl Approve_failed, db_rejected)
   \<and> reject_application No_fault (clock_from 40) 99 not_eligible other_landlord db_rejected
       = (Inl Reject_failed, db_rejected)
   \<and> status_code Approve_failed = 400 \<and> status_code Reject_failed = 400
   \<and> status_code Application_not_found = 404"
  by (simp add: approve_application_def reject_application_def single_def example_defs)

section \<open>The escrow ledger follows the applications\<close>

lemma escrow_consistent_review:
  assumes inv: "escrow_consistent db"
    and f: "\<And>a. app_id (f a) = app_id a" "\<And>a. app_status (f a) = s"
    and g: "\<And>t. txn_application_id (g t) = txn_application_id t" "\<And>t. txn_status (g t) = expected_escrow s"
    and apps: "applications db' = map (\<lambda>a. if app_id a = k then f a else a) (applications db)"
    and txns: "transactions db' = map (\<lambda>t. if txn_application_id t = k then g t else t) (transactions db)"
  shows "escrow_consistent db'"
  unfolding escrow_consistent_def
proof (intro ballI impI)
  fix a t
  assume "a \<in> set (applications db')" and "t \<in> set (transactions db')"
    and link: "txn_application_id t = app_id a"
  then obtain a0 t0 where a0: "a0 \<in> set (applications db)" "a = (if app_id a0 = k then f a0 else a0)"
    and t0: "t0 \<in> set (transactions db)" "t = (if txn_application_id t0 = k then g t0 else t0)"
    unfolding apps txns by auto
  have ida: "app_id a = app_id a0" using a0(2) f(1) by simp
  have idt: "txn_application_id t = txn_application_id t0" using t0(2) g(1) by simp
  show "txn_status t = expected_escrow (app_status a)"
  proof (cases "app_id a0 = k")
    case True
    with link ida idt have "txn_application_id t0 = k" by simp
    with True a0(2) t0(2) f(2) g(2) show ?thesis by simp
  next
    case False
    with link ida idt have "txn_application_id t0 \<noteq> k" by simp
    with False a0(2) t0(2) have "a = a0" "t = t0" by simp_all
    moreover from link ida idt have "txn_application_id t0 = app_id a0" by simp
    ultimately show ?thesis using inv a0(1) t0(1) by (simp add: escrow_consistent_def)
  qed
qed

lemma keys_issued_review:
  assumes inv: "keys_issued db"
    and f: "\<And>a. app_id (f a) = app_id a"
    and g: "\<And>t. txn_application_id (g t) = txn_application_id t"
    and apps: "applications db' = map (\<lambda>a. if app_id a = k then f a else a) (applications db)"
    and txns: "transactions db' = map (\<lambda>t. if txn_application_id t = k then g t else t) (transactions db)"
    and nxt: "next_id db' = next_id db"
  shows "keys_issued db'"
  unfolding keys_issued_def
proof (intro conjI ballI)
  fix a assume "a \<in> set (applications db')"
  then obtain a0 where a0: "a0 \<in> set (applications db)" "a = (if app_id a0 = k then f a0 else a0)"
    unfolding apps by auto
  have "app_id a = app_id a0" using a0(2) f by simp
  with inv a0(1) show "app_id a < next_id db'" by (simp add: keys_issued_def nxt)
next
  fix t assume "t \<in> set (transactions db')"
  then obtain t0 where t0: "t0 \<in> set (transactions db)" "t = (if txn_application_id t0 = k then g t0 else t0)"
    unfolding txns by auto
  have "txn_application_id t = txn_application_id t0" using t0(2) g by simp
  with inv t0(1) show "txn_application_id t < next_id db'" by (simp add: keys_issued_def nxt)
qed

lemma approve_application_shape:
  assumes "fault \<noteq> Raises 3"
  shows "snd (approve_application fault now k u db) = db
    \<or> (applications (snd (approve_application fault now k u db))
          = map (\<lambda>a. if app_id a = k
                then a\<lparr>app_status := Approved, reviewed_at := Some (now 1),
                       reviewed_by := Some (user_id u)\<rparr> else a) (applications db)
        \<and> transactions (snd (approve_application fault now k u db))
          = map (\<lambda>t. if txn_application_id t = k
                then t\<lparr>txn_status := Released, released_at := Some (now 2)\<rparr> else t)
              (transactions db)
        \<and> next_id (snd (approve_application fault now k u db)) = next_id db)"
  using assms by (simp add: approve_application_def single_def Let_def split: option.splits api_response.splits)

lemma reject_application_shape:
  assumes "fault \<noteq> Raises 3"
  shows "snd (reject_application fault now k rd u db) = db
    \<or> (applications (snd (reject_application fault now k rd u db))
          = map (\<lambda>a. if app_id a = k
                then a\<lparr>app_status := Rejected, rejection_reason := Some (reason rd),
                       reason_code := Some (ar_reason_code rd),
                       reviewed_at := Some (now 1), reviewed_by := Some (user_id u)\<rparr> else a)
              (applications db)
        \<and> transactions (snd (reject_application fault now k rd u db))
          = map (\<lambda>t. if txn_application_id t = k
                then t\<lparr>txn_status := Refunded, refunded_at := Some (now 2)\<rparr> else t)
              (transactions db)
        \<and> next_id (snd (reject_application fault now k rd u db)) = next_id db)"
  using assms by (simp add: reject_application_def single_def Let_def split: option.splits api_response.splits)

lemma approve_application_consistent:
  assumes "escrow_consistent db" and "keys_issued db" and "fault \<noteq> Raises 3"
  shows "escrow_consistent (snd (approve_application fault now k u db))
         \<and> keys_issued (snd (approve_application fault now k u db))"
proof -
  from approve_application_shape [OF assms(3), of now k u db]
  show ?thesis
  proof (elim disjE conjE)
    assume "snd (approve_application fault now k u db) = db"
    with assms show ?thesis by simp
  next
    assume apps: "applications (snd (approve_application fault now k u db))
          = map (\<lambda>a. if app_id a = k
                then a\<lparr>app_status := Approved, reviewed_at := Some (now 1),
                       reviewed_by := Some (user_id u)\<rparr> else a) (applications db)"
      and txns: "transactions (snd (approve_application fault now k u db))
          = map (\<lambda>t. if txn_application_id t = k
                then t\<lparr>txn_status := Released, released_at := Some (now 2)\<rparr> else t)
              (transactions db)"
      and nxt: "next_id (snd (approve_application fault now k u db)) = next_id db"
    have "escrow_consistent (snd (approve_application fault now k u db))"
      by (rule escrow_consistent_review [OF assms(1) _ _ _ _ apps txns, where s = Approved])
        simp_all
    moreover have "keys_issued (snd (approve_application fault now k u db))"
      by (rule keys_issued_review [OF assms(2) _ _ apps txns nxt]) simp_all
    ultimately show ?thesis by simp
  qed
qed

lemma reject_application_consistent:
  assumes "escrow_consistent db" and "keys_issued db" and "fault \<noteq> Raises 3"
  shows "escrow_consistent (snd (reject_application fault now k rd u db))
         \<and> keys_issued (snd (reject_application fault now k rd u db))"
proof -
  from reject_application_shape [OF assms(3), of now k rd u db]
  show ?thesis
  proof (elim disjE conjE)
    assume "snd (reject_application fault now k rd u db) = db"
    with assms show ?thesis by simp
  next
    assume apps: "applications (snd (reject_application fault now k rd u db))
          = map (\<lambda>a. if app_id a = k
                then a\<lparr>app_status := Rejected, rejection_reason := Some (reason rd),
                       reason_code := Some (ar_reason_code rd),
                       reviewed_at := Some (now 1), reviewed_by := Some (user_id u)\<rparr> else a)
              (applications db)"
      and txns: "transactions (snd (reject_application fault now k rd u db))
          = map (\<lambda>t. if txn_application_id t = k
                then t\<lparr>txn_status := Refunded, refunded_at := Some (now 2)\<rparr> else t)
              (transactions db)"
      and nxt: "next_id (snd (reject_application fault now k rd u db)) = next_id db"
    have "escrow_consistent (snd (reject_application fault now k rd u db))"
      by (rule escrow_consistent_review [OF assms(1) _ _ _ _ apps txns, where s = Rejected])
        simp_all
    moreover have "keys_issued (snd (reject_application fault now k rd u db))"
      by (rule keys_issued_review [OF assms(2) _ _ apps txns nxt]) simp_all
    ultimately show ?thesis by simp
  qed
qed


lemma create_application_consistent:
  assumes "escrow_consistent db" and "keys_issued db"
  shows "escrow_consistent (snd (create_application fault now req u db))
         \<and> keys_issued (snd (create_application fault now req u db))"
  using assms
  by (auto simp add: create_application_def single_def Let_def escrow_consistent_def keys_issued_def
      app_dict_def transaction_dict_def split: option.splits api_response.splits)

lemma find_Some_set: "find Q xs = Some x \<Longrightarrow> x \<in> set xs"
  by (induction xs) (auto split: if_splits)

text \<open>
  An approval or rejection that has passed its checks and whose update of the
  transactions raises: the application is written, the transactions are not.
\<close>

lemma approve_application_cut_short:
  assumes "find (\<lambda>a. app_id a = k) (applications db) = Some a"
    and "find (\<lambda>p. prop_id p = app_property_id a) (properties db) = Some p"
    and "landlord_id p = user_id u"
    and "app_status a = Submitted \<or> app_status a = Under_review"
  shows "fst (approve_application (Raises 3) now k u db) = Inl Approve_failed"
    and "applications (snd (approve_application (Raises 3) now k u db))
          = map (\<lambda>a. if app_id a = k
                then a\<lparr>app_status := Approved, reviewed_at := Some (now 1),
                       reviewed_by := Some (user_id u)\<rparr> else a) (applications db)"
    and "transactions (snd (approve_application (Raises 3) now k u db)) = transactions db"
  using assms by (auto simp add: approve_application_def single_def)

lemma reject_application_cut_short:
  assumes "find (\<lambda>a. app_id a = k) (applications db) = Some a"
    and "find (\<lambda>p. prop_id p = app_property_id a) (properties db) = Some p"
    and "landlord_id p = user_id u"
    and "app_status a = Submitted \<or> app_status a = Under_review"
  shows "fst (reject_application (Raises 3) now k rd u db) = Inl Reject_failed"
    and "applications (snd (reject_application (Raises 3) now k rd u db))
          = map (\<lambda>a. if app_id a = k
                then a\<lparr>app_status := Rejected, rejection_reason := Some (reason rd),
                       reason_code := Some (ar_reason_code rd),
                       reviewed_at := Some (now 1), reviewed_by := Some (user_id u)\<rparr> else a)
              (applications db)"
    and "transactions (snd (reject_application (Raises 3) now k rd u db)) = transactions db"
  using assms by (auto simp add: reject_application_def single_def)

lemma escrow_left_held:
  assumes inv: "escrow_consistent db"
    and found: "find (\<lambda>a. app_id a = k) (applications db) = Some a"
    and still_open: "app_status a = Submitted \<or> app_status a = Under_review"
    and apps: "applications db' = map (\<lambda>a. if app_id a = k then f a else a) (applications db)"
    and f: "\<And>a. app_id (f a) = app_id a" "\<And>a. app_status (f a) = s"
    and s: "expected_escrow s \<noteq> Held"
    and txns: "transactions db' = transactions db"
  shows "find (\<lambda>a. app_id a = k) (applications db') = Some (f a)
    \<and> (\<forall>t \<in> set (transactions db'). txn_application_id t = k \<longrightarrow> txn_status t = Held)
    \<and> ((\<exists>t \<in> set (transactions db). txn_application_id t = k) \<longrightarrow> \<not> escrow_consistent db')"
proof (intro conjI)
  have key: "app_id a = k"
    using find_Some_holds [OF found] .
  have "find (\<lambda>a. app_id a = k) (map (\<lambda>a. if app_id a = k then f a else a) (applications db))
          = map_option (\<lambda>a. if app_id a = k then f a else a)
              (find (\<lambda>a. app_id a = k) (applications db))"
    by (rule find_map_keeping) (simp add: f(1))
  with found key show written: "find (\<lambda>a. app_id a = k) (applications db') = Some (f a)"
    by (simp add: apps)
  have held: "txn_status t = Held" if "t \<in> set (transactions db)" "txn_application_id t = k" for t
  proof -
    from inv find_Some_set [OF found] that key
    have "txn_status t = expected_escrow (app_status a)"
      by (simp add: escrow_consistent_def)
    with still_open show ?thesis by auto
  qed
  then show "\<forall>t \<in> set (transactions db'). txn_application_id t = k \<longrightarrow> txn_status t = Held"
    by (simp add: txns)
  show "(\<exists>t \<in> set (transactions db). txn_application_id t = k) \<longrightarrow> \<not> escrow_consistent db'"
  proof (intro impI notI)
    assume "\<exists>t \<in> set (transactions db). txn_application_id t = k"
      and after: "escrow_consistent db'"
    then obtain t where t: "t \<in> set (transactions db)" "txn_application_id t = k"
      by blast
    from find_Some_set [OF written] have "f a \<in> set (applications db')" .
    with after t key f(1) have "txn_status t = expected_escrow (app_status (f a))"
      by (simp add: escrow_consistent_def txns)
    with held [OF t] f(2) s show False by simp
  qed
qed

text \<open>
  Claim C1, as amended. In a store whose keys in use were all issued by it, so that the
  key of a new application is one that no transaction refers to: when every transaction
  has the status that its application's status gives (submitted or under review: held;
  approved: released; rejected: refunded) before a lifecycle operation, it has it after
  the operation too, for every submit, whatever call of it fails, and for every approve
  or reject in which the update of the transactions does not raise. When that update
  raises in an approve or reject that has passed its checks, the request fails with the
  application already approved or rejected while every transaction of the application
  is still held: if the application has a transaction, the two have diverged.
\<close>

theorem escrow_consistent_preserved:
  assumes "escrow_consistent db" and "keys_issued db"
  shows "escrow_consistent (snd (create_application fault now application_data current_user db))
    \<and> keys_issued (snd (create_application fault now application_data current_user db))
    \<and> (fault \<noteq> Raises 3 \<longrightarrow>
         escrow_consistent (snd (approve_application fault now application_id current_user db))
         \<and> keys_issued (snd (approve_application fault now application_id current_user db)))
    \<and> (fault \<noteq> Raises 3 \<longrightarrow>
         escrow_consistent
           (snd (reject_application fault now application_id rejection_data current_user db))
         \<and> keys_issued
           (snd (reject_application fault now application_id rejection_data current_user db)))
    \<and> (find (\<lambda>a. app_id a = application_id) (applications db) = Some a
        \<and> find (\<lambda>p. prop_id p = app_property_id a) (properties db) = Some p
        \<and> landlord_id p = user_id current_user
        \<and> (app_status a = Submitted \<or> app_status a = Under_review) \<longrightarrow>
         fst (approve_application (Raises 3) now application_id current_user db)
           = Inl Approve_failed
         \<and> find (\<lambda>a. app_id a = application_id)
             (applications (snd (approve_application (Raises 3) now application_id
                current_user db)))
           = Some (a\<lparr>app_status := Approved, reviewed_at := Some (now 1),
                     reviewed_by := Some (user_id current_user)\<rparr>)
         \<and> (\<forall>t \<in> set (transactions
                (snd (approve_application (Raises 3) now application_id current_user db))).
               txn_application_id t = application_id \<longrightarrow> txn_status t = Held)
         \<and> ((\<exists>t \<in> set (transactions db). txn_application_id t = application_id) \<longrightarrow>
               \<not> escrow_consistent
                   (snd (approve_application (Raises 3) now application_id current_user db)))
         \<and> fst (reject_application (Raises 3) now application_id rejection_data current_user db)
           = Inl Reject_failed
         \<and> find (\<lambda>a. app_id a = application_id)
             (applications (snd (reject_application (Raises 3) now application_id
                rejection_data current_user db)))
           = Some (a\<lparr>app_status := Rejected,
                     rejection_reason := Some (reason rejection_data),
                     reason_code := Some (ar_reason_code rejection_data),
                     reviewed_at := Some (now 1),
                     reviewed_by := Some (user_id current_user)\<rparr>)
         \<and> (\<forall>t \<in> set (transactions
                (snd (reject_application (Raises 3) now application_id rejection_data
                   current_user db))).
               txn_application_id t = application_id \<longrightarrow> txn_status t = Held)
         \<and> ((\<exists>t \<in> set (transactions db). txn_application_id t = application_id) \<longrightarrow>
               \<not> escrow_consistent
                   (snd (reject_application (Raises 3) now application_id rejection_data
                      current_user db))))"
proof -
  have cut: "fst (approve_application (Raises 3) now application_id current_user db)
           = Inl Approve_failed
         \<and> find (\<lambda>a. app_id a = application_id)
             (applications (snd (approve_application (Raises 3) now application_id
                current_user db)))
           = Some (a\<lparr>app_status := Approved, reviewed_at := Some (now 1),
                     reviewed_by := Some (user_id current_user)\<rparr>)
         \<and> (\<forall>t \<in> set (transactions
                (snd (approve_application (Raises 3) now application_id current_user db))).
               txn_application_id t = application_id \<longrightarrow> txn_status t = Held)
         \<and> ((\<exists>t \<in> set (transactions db). txn_application_id t = application_id) \<longrightarrow>
               \<not> escrow_consistent
                   (snd (approve_application (Raises 3) now application_id current_user db)))
         \<and> fst (reject_application (Raises 3) now application_id rejection_data current_user db)
           = Inl Reject_failed
         \<and> find (\<lambda>a. app_id a = application_id)
             (applications (snd (reject_application (Raises 3) now application_id
                rejection_data current_user db)))
           = Some (a\<lparr>app_status := Rejected,
                     rejection_reason := Some (reason rejection_data),
                     reason_code := Some (ar_reason_code rejection_data),
                     reviewed_at := Some (now 1),
                     reviewed_by := Some (user_id current_user)\<rparr>)
         \<and> (\<forall>t \<in> set (transactions
                (snd (reject_application (Raises 3) now application_id rejection_data
                   current_user db))).
               txn_application_id t = application_id \<longrightarrow> txn_status t = Held)
         \<and> ((\<exists>t \<in> set (transactions db). txn_application_id t = application_id) \<longrightarrow>
               \<not> escrow_consistent
                   (snd (reject_application (Raises 3) now application_id rejection_data
                      current_user db)))"
    if found: "find (\<lambda>a. app_id a = application_id) (applications db) = Some a"
      and owned: "find (\<lambda>p. prop_id p = app_property_id a) (properties db) = Some p"
        "landlord_id p = user_id current_user"
      and still_open: "app_status a = Submitted \<or> app_status a = Under_review"
  proof -
    note ap = approve_application_cut_short [OF found owned still_open, of now]
    note rj = reject_application_cut_short [OF found owned still_open, of now rejection_data]
    have "find (\<lambda>a. app_id a = application_id)
             (applications (snd (approve_application (Raises 3) now application_id
                current_user db)))
           = Some (a\<lparr>app_status := Approved, reviewed_at := Some (now 1),
                     reviewed_by := Some (user_id current_user)\<rparr>)
         \<and> (\<forall>t \<in> set (transactions
                (snd (approve_application (Raises 3) now application_id current_user db))).
               txn_application_id t = application_id \<longrightarrow> txn_status t = Held)
         \<and> ((\<exists>t \<in> set (transactions db). txn_application_id t = application_id) \<longrightarrow>
               \<not> escrow_consistent
                   (snd (approve_application (Raises 3) now application_id current_user db)))"
      by (rule escrow_left_held [OF assms(1) found still_open ap(2) _ _ _ ap(3),
            where s = Approved]) simp_all
    moreover
    have "find (\<lambda>a. app_id a = application_id)
             (applications (snd (reject_application (Raises 3) now application_id
                rejection_data current_user db)))
           = Some (a\<lparr>app_status := Rejected,
                     rejection_reason := Some (reason rejection_data),
                     reason_code := Some (ar_reason_code rejection_data),
                     reviewed_at := Some (now 1),
                     reviewed_by := Some (user_id current_user)\<rparr>)
         \<and> (\<forall>t \<in> set (transactions
                (snd (reject_application (Raises 3) now application_id rejection_data
                   current_user db))).
               txn_application_id t = application_id \<longrightarrow> txn_status t = Held)
         \<and> ((\<exists>t \<in> set (transactions db). txn_application_id t = application_id) \<longrightarrow>
               \<not> escrow_consistent
                   (snd (reject_application (Raises 3) now application_id rejection_data
                      current_user db)))"
      by (rule escrow_left_held [OF assms(1) found still_open rj(2) _ _ _ rj(3),
            where s = Rejected]) simp_all
    ultimately show ?thesis
      using ap(1) rj(1) by blast
  qed
  from create_application_consistent [OF assms, of fault now application_data current_user]
    approve_application_consistent [OF assms, of fault now application_id current_user]
    reject_application_consistent [OF assms, of fault now application_id rejection_data
      current_user]
    cut
  show ?thesis by blast
qed

theorem escrow_consistent_preserved_witness:
  "escrow_consistent db_listed \<and> keys_issued db_listed
   \<and> fst (create_application No_fault (clock_from 20) flat_request tenant_user db_listed)
       = Inr (Application_submitted flat_application (Some flat_escrow))
   \<and> escrow_consistent
       (snd (create_application No_fault (clock_from 20) flat_request tenant_user db_listed))
   \<and> escrow_consistent db_submitted \<and> keys_issued db_submitted
   \<and> escrow_consistent (snd (approve_application No_fault (clock_from 30) 10 owner_user db_submitted))
   \<and> escrow_consistent
       (snd (reject_application No_fault (clock_from 30) 10 not_eligible owner_user db_submitted))
   \<and> find (\<lambda>a. app_id a = 10) (applications db_submitted) = Some flat_application
   \<and> find (\<lambda>p. prop_id p = app_property_id flat_application) (properties db_submitted)
       = Some (flat\<lparr>application_count := 1\<rparr>)
   \<and> landlord_id (flat\<lparr>application_count := 1\<rparr>) = user_id owner_user
   \<and> app_status flat_application = Submitted
   \<and> flat_escrow \<in> set (transactions db_submitted) \<and> txn_application_id flat_escrow = 10
   \<and> fst (reject_application (Raises 3) (clock_from 30) 10 not_eligible owner_user db_submitted)
       = Inl Reject_failed
   \<and> \<not> escrow_consistent
         (snd (reject_application (Raises 3) (clock_from 30) 10 not_eligible owner_user
            db_submitted))"
proof -
  have c0: "escrow_consistent db_listed"
    by (simp add: escrow_consistent_def example_defs)
  have k0: "keys_issued db_listed"
    by (simp add: keys_issued_def example_defs)
  have c: "escrow_consistent db_submitted"
    by (simp add: escrow_consistent_def example_defs)
  have k: "keys_issued db_submitted"
    by (simp add: keys_issued_def example_defs)
  have n: "No_fault \<noteq> Raises 3" by simp
  have submitted: "fst (create_application No_fault (clock_from 20) flat_request tenant_user
      db_listed) = Inr (Application_submitted flat_application (Some flat_escrow))"
    by (simp add: create_application_def single_def app_dict_def transaction_dict_def
        example_defs Let_def)
  have a: "find (\<lambda>a. app_id a = 10) (applications db_submitted) = Some flat_application"
    by (simp add: example_defs)
  have p: "find (\<lambda>p. prop_id p = app_property_id flat_application) (properties db_submitted)
             = Some (flat\<lparr>application_count := 1\<rparr>)"
    by (simp add: example_defs)
  have l: "landlord_id (flat\<lparr>application_count := 1\<rparr>) = user_id owner_user"
    by (simp add: example_defs)
  have s: "app_status flat_application = Submitted"
    by (simp add: example_defs)
  have t: "flat_escrow \<in> set (transactions db_submitted)" "txn_application_id flat_escrow = 10"
    by (simp_all add: example_defs)
  then have paired: "\<exists>t \<in> set (transactions db_submitted). txn_application_id t = 10"
    by blast
  from escrow_consistent_preserved [OF c0 k0, where fault = No_fault and now = "clock_from 20"
      and application_data = flat_request and current_user = tenant_user]
  have created: "escrow_consistent
       (snd (create_application No_fault (clock_from 20) flat_request tenant_user db_listed))"
    by blast
  from escrow_consistent_preserved [OF c k, where fault = No_fault and now = "clock_from 30"
      and application_id = 10 and current_user = owner_user and rejection_data = not_eligible] n
  have answered:
    "escrow_consistent (snd (approve_application No_fault (clock_from 30) 10 owner_user db_submitted))"
    "escrow_consistent
       (snd (reject_application No_fault (clock_from 30) 10 not_eligible owner_user db_submitted))"
    by blast+
  from escrow_consistent_preserved [OF c k, where now = "clock_from 30"
      and application_id = 10 and current_user = owner_user and rejection_data = not_eligible
      and a = flat_application and p = "flat\<lparr>application_count := 1\<rparr>"] a p l s paired
  have cut: "fst (reject_application (Raises 3) (clock_from 30) 10 not_eligible owner_user
        db_submitted) = Inl Reject_failed"
    "\<not> escrow_consistent
         (snd (reject_application (Raises 3) (clock_from 30) 10 not_eligible owner_user
            db_submitted))"
    by blast+
  from c0 k0 submitted created c k answered a p l s t cut show ?thesis
    by blast
qed

text \<open>
  Claim C1 as stated fails: when the update of the transactions raises in an approval,
  the application stays approved and its transaction stays held.
\<close>

theorem escrow_diverges_on_failed_update:
  "escrow_consistent db_submitted \<and> keys_issued db_submitted
   \<and> approve_application (Raises 3) (clock_from 30) 10 owner_user db_submitted
       = (Inl Approve_failed, db_half_approved)
   \<and> map app_status (applications db_half_approved) = [Approved]
   \<and> map txn_application_id (transactions db_half_approved)
       = map app_id (applications db_half_approved)
   \<and> map txn_status (transactions db_half_approved) = [Held]
   \<and> \<not> escrow_consistent db_half_approved"
  by (simp add: approve_application_def single_def escrow_consistent_def keys_issued_def
      example_defs)

section \<open>Applying twice for the same property\<close>

text \<open>
  Claim C3, as amended. Submitting fails with the duplicate-application error exactly
  when the three reads return, the profile gate and the property check pass, and the
  tenant already has an application for the property, whatever its status.
\<close>

theorem duplicate_application_iff:
  "fst (create_application fault now application_data current_user db)
     = Inl Duplicate_application
   \<longleftrightarrow>
     fault \<notin> {Raises 1, Raises 2, Raises 3}
     \<and> (\<exists>tenant_profile.
           find (\<lambda>t. tenant_id t = user_id current_user) (tenants db) = Some tenant_profile
           \<and> 100 \<le> profile_completion tenant_profile)
     \<and> find (\<lambda>p. prop_id p = property_id application_data) (properties db) \<noteq> None
     \<and> (\<exists>a \<in> set (applications db).
           app_tenant_id a = user_id current_user
           \<and> app_property_id a = property_id application_data)"
  by (auto simp add: create_application_def single_def Let_def filter_empty_conv split: option.splits api_response.splits)

theorem duplicate_application_iff_witness:
  "fst (create_application No_fault (clock_from 50) flat_request tenant_user db_submitted)
     = Inl Duplicate_application
   \<and> fst (create_application No_fault (clock_from 50) flat_request tenant_user db_listed)
     \<noteq> Inl Duplicate_application"
proof -
  have dup: "No_fault \<notin> {Raises 1, Raises 2, Raises 3}
     \<and> (\<exists>tenant_profile.
           find (\<lambda>t. tenant_id t = user_id tenant_user) (tenants db_submitted) = Some tenant_profile
           \<and> 100 \<le> profile_completion tenant_profile)
     \<and> find (\<lambda>p. prop_id p = property_id flat_request) (properties db_submitted) \<noteq> None
     \<and> (\<exists>a \<in> set (applications db_submitted).
           app_tenant_id a = user_id tenant_user
           \<and> app_property_id a = property_id flat_request)"
    by (simp add: example_defs)
  have none: "\<not> (\<exists>a \<in> set (applications db_listed).
           app_tenant_id a = user_id tenant_user
           \<and> app_property_id a = property_id flat_request)"
    by (simp add: example_defs)
  from dup none
    duplicate_application_iff [of No_fault "clock_from 50" flat_request tenant_user db_submitted]
    duplicate_application_iff [of No_fault "clock_from 50" flat_request tenant_user db_listed]
  show ?thesis by blast
qed

text \<open>
  Claim C3 as stated fails: when the tenant's only application for the property is
  rejected, a new submit still fails with the duplicate-application error.
\<close>

theorem duplicate_after_rejection:
  "applications db_rejected = [rejected_application]
   \<and> app_status rejected_application = Rejected
   \<and> app_tenant_id rejected_application = user_id tenant_user
   \<and> app_property_id rejected_application = property_id flat_request
   \<and> create_application No_fault (clock_from 50) flat_request tenant_user db_rejected
       = (Inl Duplicate_application, db_rejected)"
  by (simp add: create_application_def single_def example_defs)

section \<open>The three writes of a submission\<close>

text \<open>
  Claim C2, as amended. For a submission that passes the checks, the three writes are
  made one after another and none is undone: when the insert of the application fails,
  the store is unchanged; when the insert of the transaction fails, the application
  stays stored, without transaction, and the counter is unchanged; when the read or the
  update of the counter fails, the application and its transaction stay stored and the
  counter is unchanged; when the insert of the transaction returns no row, the request
  still succeeds, with the application stored and counted and no transaction; in every
  other case the submission succeeds and has made all three.
\<close>

theorem create_application_effects_by_failure:
  assumes gate: "find (\<lambda>t. tenant_id t = user_id current_user) (tenants db) = Some tenant_profile"
      "100 \<le> profile_completion tenant_profile"
    and found: "find (\<lambda>p. prop_id p = property_id application_data) (properties db)
                = Some property_data"
    and fresh: "\<forall>a \<in> set (applications db).
                  \<not> (app_tenant_id a = user_id current_user
                     \<and> app_property_id a = property_id application_data)"
  shows "let application = app_dict (next_id db) (user_id current_user) application_data;
             transaction = transaction_dict (Suc (next_id db)) (now 1) application
               (user_id current_user) property_data application_data;
             result = fst (create_application fault now application_data current_user db);
             db' = snd (create_application fault now application_data current_user db)
         in (fault \<in> {Raises 1, Raises 2, Raises 3, Raises 4} \<longrightarrow>
               result = Inl Submit_failed \<and> db' = db)
          \<and> (fault = No_data 4 \<longrightarrow>
               result = Inl Failed_to_create_application \<and> db' = db)
          \<and> (fault = Raises 5 \<longrightarrow>
               result = Inl Submit_failed
               \<and> applications db' = applications db @ [application]
               \<and> transactions db' = transactions db
               \<and> properties db' = properties db)
          \<and> (fault \<in> {Raises 6, Raises 7} \<longrightarrow>
               result = Inl Submit_failed
               \<and> applications db' = applications db @ [application]
               \<and> transactions db' = transactions db @ [transaction]
               \<and> properties db' = properties db)
          \<and> (fault = No_data 5 \<longrightarrow>
               result = Inr (Application_submitted application None)
               \<and> applications db' = applications db @ [application]
               \<and> transactions db' = transactions db
               \<and> find (\<lambda>p. prop_id p = property_id application_data) (properties db')
                   = Some (property_data
                       \<lparr>application_count := application_count property_data + 1\<rparr>))
          \<and> (fault \<notin> {Raises 1, Raises 2, Raises 3, Raises 4, Raises 5, Raises 6, Raises 7,
                        No_data 4, No_data 5} \<longrightarrow>
               result = Inr (Application_submitted application (Some transaction))
               \<and> applications db' = applications db @ [application]
               \<and> transactions db' = transactions db @ [transaction]
               \<and> find (\<lambda>p. prop_id p = property_id application_data) (properties db')
                   = Some (property_data
                       \<lparr>application_count := application_count property_data + 1\<rparr>))"
proof -
  have no_dup: "filter (\<lambda>a. app_tenant_id a = user_id current_user
                    \<and> app_property_id a = property_id application_data) (applications db) = []"
    using fresh by (simp add: filter_empty_conv)
  have key: "prop_id property_data = property_id application_data"
    using find_Some_holds [OF found] .
  have counted: "find (\<lambda>p. prop_id p = property_id application_data)
      (map (\<lambda>p. if prop_id p = property_id application_data
                then p\<lparr>application_count := application_count property_data + 1\<rparr> else p)
         (properties db))
      = Some (property_data\<lparr>application_count := application_count property_data + 1\<rparr>)"
  proof -
    have "find (\<lambda>p. prop_id p = property_id application_data)
      (map (\<lambda>p. if prop_id p = property_id application_data
                then p\<lparr>application_count := application_count property_data + 1\<rparr> else p)
         (properties db))
      = map_option (\<lambda>p. if prop_id p = property_id application_data
                then p\<lparr>application_count := application_count property_data + 1\<rparr> else p)
          (find (\<lambda>p. prop_id p = property_id application_data) (properties db))"
      by (rule find_map_keeping) simp
    with found key show ?thesis by simp
  qed
  show ?thesis
    using gate found no_dup counted
    by (simp add: create_application_def single_def Let_def)
qed


theorem create_application_effects_by_failure_witness:
  "find (\<lambda>t. tenant_id t = user_id tenant_user) (tenants db_listed) = Some complete_profile_row
   \<and> 100 \<le> profile_completion complete_profile_row
   \<and> find (\<lambda>p. prop_id p = property_id flat_request) (properties db_listed) = Some flat
   \<and> applications db_listed = []
   \<and> create_application (Raises 4) (clock_from 20) flat_request tenant_user db_listed
       = (Inl Submit_failed, db_listed)
   \<and> create_application (No_data 4) (clock_from 20) flat_request tenant_user db_listed
       = (Inl Failed_to_create_application, db_listed)
   \<and> fst (create_application (Raises 5) (clock_from 20) flat_request tenant_user db_listed) = Inl Submit_failed
   \<and> applications (snd (create_application (Raises 5) (clock_from 20) flat_request tenant_user db_listed))
       = [flat_application]
   \<and> transactions (snd (create_application (Raises 5) (clock_from 20) flat_request tenant_user db_listed))
       = []
   \<and> fst (create_application (Raises 6) (clock_from 20) flat_request tenant_user db_listed) = Inl Submit_failed
   \<and> applications (snd (create_application (Raises 6) (clock_from 20) flat_request tenant_user db_listed))
       = [flat_application]
   \<and> transactions (snd (create_application (Raises 6) (clock_from 20) flat_request tenant_user db_listed))
       = [flat_escrow]
   \<and> properties (snd (create_application (Raises 6) (clock_from 20) flat_request tenant_user db_listed))
       = [flat]
   \<and> fst (create_application (No_data 5) (clock_from 20) flat_request tenant_user db_listed)
       = Inr (Application_submitted flat_application None)
   \<and> transactions (snd (create_application (No_data 5) (clock_from 20) flat_request tenant_user db_listed))
       = []
   \<and> fst (create_application No_fault (clock_from 20) flat_request tenant_user db_listed)
       = Inr (Application_submitted flat_application (Some flat_escrow))
   \<and> find (\<lambda>p. prop_id p = property_id flat_request)
         (properties (snd (create_application No_fault (clock_from 20) flat_request tenant_user db_listed)))
       = Some (flat\<lparr>application_count := 1\<rparr>)"
proof -
  have g: "find (\<lambda>t. tenant_id t = user_id tenant_user) (tenants db_listed)
             = Some complete_profile_row"
    by (simp add: example_defs)
  have c: "100 \<le> profile_completion complete_profile_row"
    by (simp add: example_defs)
  have p: "find (\<lambda>p. prop_id p = property_id flat_request) (properties db_listed) = Some flat"
    by (simp add: example_defs)
  have e: "applications db_listed = []"
    by (simp add: example_defs)
  have f: "\<forall>a \<in> set (applications db_listed).
             \<not> (app_tenant_id a = user_id tenant_user \<and> app_property_id a = property_id flat_request)"
    by (simp add: e)
  have rows: "app_dict (next_id db_listed) (user_id tenant_user) flat_request = flat_application"
    "transaction_dict (Suc (next_id db_listed)) (clock_from 20 (Suc 0)) flat_application
       (user_id tenant_user) flat flat_request = flat_escrow"
    "transactions db_listed = []" "properties db_listed = [flat]"
    "flat\<lparr>application_count := application_count flat + 1\<rparr> = flat\<lparr>application_count := 1\<rparr>"
    "prop_id flat = property_id flat_request"
    by (simp_all add: example_defs app_dict_def transaction_dict_def)
  note inst = create_application_effects_by_failure [OF g c p f, of "clock_from 20"]
  from inst [of "Raises 4"]
  have r4: "create_application (Raises 4) (clock_from 20) flat_request tenant_user db_listed
       = (Inl Submit_failed, db_listed)"
    by (simp add: Let_def prod_eq_iff)
  from inst [of "No_data 4"]
  have n4: "create_application (No_data 4) (clock_from 20) flat_request tenant_user db_listed
       = (Inl Failed_to_create_application, db_listed)"
    by (simp add: Let_def prod_eq_iff)
  from inst [of "Raises 5"] inst [of "Raises 6"] inst [of "No_data 5"] inst [of No_fault]
  show ?thesis
    by (simp add: Let_def rows g c p e r4 n4)
qed

text \<open>
  Claim C2 as stated fails: when the insert of the transaction raises, the request fails
  and the application alone is stored.
\<close>

theorem create_application_partial_state:
  "applications db_listed = [] \<and> transactions db_listed = []
   \<and> create_application (Raises 5) (clock_from 20) flat_request tenant_user db_listed
       = (Inl Submit_failed, db_half_submitted)
   \<and> applications db_half_submitted = [flat_application]
   \<and> transactions db_half_submitted = []
   \<and> properties db_half_submitted = properties db_listed"
  by (simp add: create_application_def single_def app_dict_def example_defs)

section \<open>Trust score and verification status\<close>

lemma filter_updated_row:
  assumes "find Q xs = Some x" and "\<And>t. Q (f t) = Q t"
  shows "\<exists>rest. filter Q (map (\<lambda>t. if Q t then f t else t) xs) = f x # rest"
  using assms(1)
proof (induction xs)
  case Nil
  then show ?case by simp
next
  case (Cons y ys)
  show ?case
  proof (cases "Q y")
    case True
    with Cons.prems have "y = x" by simp
    with True assms(2) show ?thesis by simp
  next
    case False
    with Cons.prems have "find Q ys = Some x" by simp
    from Cons.IH [OF this] False show ?thesis by simp
  qed
qed

lemma complete_profile_users_on_failure:
  "isl (fst (complete_profile fault now profile_data current_user db))
   \<Longrightarrow> users (snd (complete_profile fault now profile_data current_user db)) = users db"
  by (simp add: complete_profile_def Let_def split: list.splits if_splits)

lemma register_users:
  assumes "auth_user auth_response = Some uid" and "fault \<notin> {Raises 1, Raises 2}"
  shows "users (snd (register fault auth_response utype db))
           = users db @ [\<lparr>user_id = uid, user_type = utype, trust_score = 50,
                          verification_status = Verif_partial\<rparr>]"
  using assms
  by (cases utype) (simp_all add: register_def Let_def split: option.splits)

lemma update_dict_completes:
  "tenant_id (update_dict ts profile_data t) = tenant_id t"
  "profile_completion (update_dict ts profile_data t) = 100"
  "onboarding_completed (update_dict ts profile_data t)"
  "calculate_profile_completion (update_dict ts profile_data t) = 100"
  by (simp_all add: update_dict_def calculate_profile_completion_def)

text \<open>The rows of \<^verbatim>\<open>tenants\<close> after the first call of \<^verbatim>\<open>complete_profile\<close>.\<close>

lemma completed_rows:
  assumes "find (\<lambda>t. tenant_id t = uid) (tenants db) = Some stored"
  shows "\<exists>rest. filter (\<lambda>t. tenant_id t = uid)
             (map (\<lambda>t. if tenant_id t = uid then update_dict ts profile_data t else t)
                (tenants db))
           = update_dict ts profile_data stored # rest"
    and "find (\<lambda>t. tenant_id t = uid)
           (map (\<lambda>t. if tenant_id t = uid then update_dict ts profile_data t else t)
              (tenants db))
         = Some (update_dict ts profile_data stored)"
proof -
  show "\<exists>rest. filter (\<lambda>t. tenant_id t = uid)
             (map (\<lambda>t. if tenant_id t = uid then update_dict ts profile_data t else t)
                (tenants db))
           = update_dict ts profile_data stored # rest"
    by (rule filter_updated_row [OF assms]) (simp add: update_dict_completes(1))
  have "find (\<lambda>t. tenant_id t = uid)
           (map (\<lambda>t. if tenant_id t = uid then update_dict ts profile_data t else t)
              (tenants db))
         = map_option (\<lambda>t. if tenant_id t = uid then update_dict ts profile_data t else t)
             (find (\<lambda>t. tenant_id t = uid) (tenants db))"
    by (rule find_map_keeping) (simp add: update_dict_completes(1))
  with assms find_Some_holds [OF assms]
  show "find (\<lambda>t. tenant_id t = uid)
           (map (\<lambda>t. if tenant_id t = uid then update_dict ts profile_data t else t)
              (tenants db))
         = Some (update_dict ts profile_data stored)"
    by simp
qed

lemma complete_profile_success:
  assumes "find (\<lambda>t. tenant_id t = user_id current_user) (tenants db) = Some stored"
    and "fault \<notin> {Raises 1, Raises 2}"
  shows "\<exists>db'.
      complete_profile fault now profile_data current_user db
        = (Inr (Profile_completed (update_dict (now 1) profile_data stored)
                  (if cp_join_rent_credit profile_data then 80 else 70)), db')
      \<and> find (\<lambda>t. tenant_id t = user_id current_user) (tenants db')
          = Some (update_dict (now 1) profile_data stored)
      \<and> tenants db' = map (\<lambda>t. if tenant_id t = user_id current_user
                 then update_dict (now 1) profile_data t else t) (tenants db)
      \<and> users db' = map (\<lambda>u. if user_id u = user_id current_user
                 then u\<lparr>trust_score := (if cp_join_rent_credit profile_data then 80 else 70),
                        verification_status := Verif_approved\<rparr>
                 else u) (users db)"
proof -
  from completed_rows(1) [OF assms(1), of "now 1" profile_data]
  obtain rest where rows:
    "filter (\<lambda>t. tenant_id t = user_id current_user)
       (map (\<lambda>t. if tenant_id t = user_id current_user
                 then update_dict (now 1) profile_data t else t) (tenants db))
     = update_dict (now 1) profile_data stored # rest"
    by blast
  define res where "res = complete_profile fault now profile_data current_user db"
  have main: "fst res
          = Inr (Profile_completed (update_dict (now 1) profile_data stored)
                  (if cp_join_rent_credit profile_data then 80 else 70))
      \<and> tenants (snd res) = map (\<lambda>t. if tenant_id t = user_id current_user
                 then update_dict (now 1) profile_data t else t) (tenants db)
      \<and> users (snd res)
          = map (\<lambda>u. if user_id u = user_id current_user
                 then u\<lparr>trust_score := (if cp_join_rent_credit profile_data then 80 else 70),
                        verification_status := Verif_approved\<rparr>
                 else u) (users db)"
    unfolding res_def
    using assms(2) rows
    by (simp add: complete_profile_def Let_def)
  then have stored: "find (\<lambda>t. tenant_id t = user_id current_user) (tenants (snd res))
          = Some (update_dict (now 1) profile_data stored)"
    using completed_rows(2) [OF assms(1), of "now 1" profile_data] by simp
  have "res = (Inr (Profile_completed (update_dict (now 1) profile_data stored)
                  (if cp_join_rent_credit profile_data then 80 else 70)), snd res)"
    using main by (cases res) simp
  with main stored show ?thesis
    unfolding res_def by blast
qed

text \<open>
  A completion whose update of the user's row raises: the profile is written, complete,
  and the user's row is not.
\<close>

lemma complete_profile_cut_short:
  assumes "find (\<lambda>t. tenant_id t = user_id current_user) (tenants db) = Some stored"
  shows "\<exists>db'.
      complete_profile (Raises 2) now profile_data current_user db
        = (Inl Complete_profile_failed, db')
      \<and> find (\<lambda>t. tenant_id t = user_id current_user) (tenants db')
          = Some (update_dict (now 1) profile_data stored)
      \<and> users db' = users db"
proof -
  from completed_rows(1) [OF assms(1), of "now 1" profile_data]
  obtain rest where rows:
    "filter (\<lambda>t. tenant_id t = user_id current_user)
       (map (\<lambda>t. if tenant_id t = user_id current_user
                 then update_dict (now 1) profile_data t else t) (tenants db))
     = update_dict (now 1) profile_data stored # rest"
    by blast
  define res where "res = complete_profile (Raises 2) now profile_data current_user db"
  have main: "fst res = Inl Complete_profile_failed
      \<and> tenants (snd res) = map (\<lambda>t. if tenant_id t = user_id current_user
                 then update_dict (now 1) profile_data t else t) (tenants db)
      \<and> users (snd res) = users db"
    unfolding res_def
    using rows
    by (simp add: complete_profile_def Let_def)
  then have stored: "find (\<lambda>t. tenant_id t = user_id current_user) (tenants (snd res))
          = Some (update_dict (now 1) profile_data stored)"
    using completed_rows(2) [OF assms(1), of "now 1" profile_data] by simp
  have "res = (Inl Complete_profile_failed, snd res)"
    using main by (cases res) simp
  with main stored show ?thesis
    unfolding res_def by blast
qed

text \<open>
  Claim C9, as amended. Registration stores the user with trust score 50 and
  verification status partial. A completion of the profile that succeeds, as it does
  for a tenant who has a profile row when no call to the store raises, stores the
  profile as complete (completion 100, onboarding completed) and, in the same request,
  sets the trust score of the tenant's user row to 80 when the tenant joins the
  rent-credit programme and to 70 otherwise, and the verification status to approved.
  When the update of the user's row raises, the request fails with the profile already
  stored as complete, while trust score and verification status stay as they were; a
  completion that fails never changes the table of users.
\<close>

theorem trust_score_milestones:
  "(auth_user auth_response = Some uid \<and> fault \<notin> {Raises 1, Raises 2} \<longrightarrow>
      users (snd (register fault auth_response utype db))
        = users db @ [\<lparr>user_id = uid, user_type = utype, trust_score = 50,
                       verification_status = Verif_partial\<rparr>])
   \<and> (find (\<lambda>t. tenant_id t = user_id current_user) (tenants db) = Some stored
       \<and> fault \<notin> {Raises 1, Raises 2} \<longrightarrow>
       (\<exists>db'.
          complete_profile fault now profile_data current_user db
            = (Inr (Profile_completed (update_dict (now 1) profile_data stored)
                      (if cp_join_rent_credit profile_data then 80 else 70)), db')
          \<and> find (\<lambda>t. tenant_id t = user_id current_user) (tenants db')
              = Some (update_dict (now 1) profile_data stored)
          \<and> tenants db' = map (\<lambda>t. if tenant_id t = user_id current_user
                 then update_dict (now 1) profile_data t else t) (tenants db)
          \<and> users db' = map (\<lambda>u. if user_id u = user_id current_user
                 then u\<lparr>trust_score := (if cp_join_rent_credit profile_data then 80 else 70),
                        verification_status := Verif_approved\<rparr>
                 else u) (users db)))
   \<and> profile_completion (update_dict (now 1) profile_data stored) = 100
   \<and> onboarding_completed (update_dict (now 1) profile_data stored)
   \<and> calculate_profile_completion (update_dict (now 1) profile_data stored) = 100
   \<and> (find (\<lambda>t. tenant_id t = user_id current_user) (tenants db) = Some stored \<longrightarrow>
       (\<exists>db'.
          complete_profile (Raises 2) now profile_data current_user db
            = (Inl Complete_profile_failed, db')
          \<and> find (\<lambda>t. tenant_id t = user_id current_user) (tenants db')
              = Some (update_dict (now 1) profile_data stored)
          \<and> users db' = users db))
   \<and> (isl (fst (complete_profile fault now profile_data current_user db)) \<longrightarrow>
        users (snd (complete_profile fault now profile_data current_user db)) = users db)"
  using register_users [of auth_response uid fault utype db]
    complete_profile_success [of current_user db stored fault now profile_data]
    complete_profile_cut_short [of current_user db stored now profile_data]
    complete_profile_users_on_failure [of fault now profile_data current_user db]
    update_dict_completes [of "now 1" profile_data stored]
  by blast

theorem trust_score_milestones_witness:
  "auth_user signup = Some 5
   \<and> users (snd (register No_fault signup Tenant db_listed))
       = users db_listed @ [\<lparr>user_id = 5, user_type = Tenant, trust_score = 50,
                               verification_status = Verif_partial\<rparr>]
   \<and> find (\<lambda>t. tenant_id t = user_id novice_user) (tenants db_listed) = Some step1_profile
   \<and> find (\<lambda>t. tenant_id t = 3)
         (tenants (snd (complete_profile No_fault (clock_from 25) rent_credit_data novice_user
            db_listed)))
       = Some novice_completed_row
   \<and> profile_completion novice_completed_row = 100
   \<and> find (\<lambda>u. user_id u = 3)
         (users (snd (complete_profile No_fault (clock_from 25) rent_credit_data novice_user
            db_listed)))
       = Some (novice_user\<lparr>trust_score := 80, verification_status := Verif_approved\<rparr>)
   \<and> find (\<lambda>u. user_id u = 3)
         (users (snd (complete_profile No_fault (clock_from 25) plain_data novice_user db_listed)))
       = Some (novice_user\<lparr>trust_score := 70, verification_status := Verif_approved\<rparr>)
   \<and> fst (complete_profile (Raises 2) (clock_from 25) rent_credit_data novice_user db_listed)
       = Inl Complete_profile_failed
   \<and> find (\<lambda>t. tenant_id t = 3)
         (tenants (snd (complete_profile (Raises 2) (clock_from 25) rent_credit_data
            novice_user db_listed)))
       = Some novice_completed_row
   \<and> users (snd (complete_profile (Raises 2) (clock_from 25) rent_credit_data novice_user
         db_listed))
       = users db_listed
   \<and> fst (complete_profile No_fault (clock_from 25) plain_data owner_user db_listed)
       = Inl Failed_to_complete_profile
   \<and> users (snd (complete_profile No_fault (clock_from 25) plain_data owner_user db_listed))
       = users db_listed"
proof -
  have a: "auth_user signup = Some 5"
    by (simp add: example_defs)
  have t: "find (\<lambda>t. tenant_id t = user_id novice_user) (tenants db_listed) = Some step1_profile"
    by (simp add: example_defs)
  have n: "No_fault \<notin> {Raises 1, Raises 2}"
    by simp
  have j: "cp_join_rent_credit rent_credit_data" "\<not> cp_join_rent_credit plain_data"
    by (simp_all add: example_defs)
  have i: "user_id novice_user = 3"
    by (simp add: example_defs)
  have r: "update_dict (clock_from 25 1) rent_credit_data step1_profile = novice_completed_row"
    by (simp add: novice_completed_row_def clock_from_def)
  have u: "find (\<lambda>u. user_id u = 3)
      (map (\<lambda>u. if user_id u = 3
             then u\<lparr>trust_score := s, verification_status := Verif_approved\<rparr> else u)
         (users db_listed))
      = Some (novice_user\<lparr>trust_score := s, verification_status := Verif_approved\<rparr>)" for s
    by (simp add: example_defs)
  note inst = trust_score_milestones [where auth_response = signup and uid = 5
      and utype = Tenant and db = db_listed and current_user = novice_user
      and stored = step1_profile and now = "clock_from 25" and fault = No_fault
      and profile_data = rent_credit_data, unfolded i r]
  from inst a n
  have reg: "users (snd (register No_fault signup Tenant db_listed))
       = users db_listed @ [\<lparr>user_id = 5, user_type = Tenant, trust_score = 50,
                               verification_status = Verif_partial\<rparr>]"
    by blast
  from inst
  have full: "profile_completion novice_completed_row = 100"
    by blast
  from inst t [unfolded i] n j(1)
  obtain db1 where "snd (complete_profile No_fault (clock_from 25) rent_credit_data novice_user
        db_listed) = db1"
    and "find (\<lambda>t. tenant_id t = 3) (tenants db1) = Some novice_completed_row"
    and "users db1 = map (\<lambda>u. if user_id u = 3
             then u\<lparr>trust_score := 80, verification_status := Verif_approved\<rparr> else u)
         (users db_listed)"
    by auto
  then have c80: "find (\<lambda>t. tenant_id t = 3)
         (tenants (snd (complete_profile No_fault (clock_from 25) rent_credit_data novice_user
            db_listed)))
       = Some novice_completed_row"
      "find (\<lambda>u. user_id u = 3)
         (users (snd (complete_profile No_fault (clock_from 25) rent_credit_data novice_user
            db_listed)))
       = Some (novice_user\<lparr>trust_score := 80, verification_status := Verif_approved\<rparr>)"
    using u [of 80] by simp_all
  from trust_score_milestones [where auth_response = signup and uid = 5 and utype = Tenant
      and db = db_listed and current_user = novice_user
      and stored = step1_profile and now = "clock_from 25" and fault = No_fault
      and profile_data = plain_data] t n
  have "\<exists>db'. complete_profile No_fault (clock_from 25) plain_data novice_user db_listed
            = (Inr (Profile_completed (update_dict (clock_from 25 1) plain_data step1_profile)
                      (if cp_join_rent_credit plain_data then 80 else 70)), db')
          \<and> find (\<lambda>t. tenant_id t = user_id novice_user) (tenants db')
              = Some (update_dict (clock_from 25 1) plain_data step1_profile)
          \<and> tenants db' = map (\<lambda>t. if tenant_id t = user_id novice_user
                 then update_dict (clock_from 25 1) plain_data t else t) (tenants db_listed)
          \<and> users db' = map (\<lambda>u. if user_id u = user_id novice_user
                 then u\<lparr>trust_score := (if cp_join_rent_credit plain_data then 80 else 70),
                        verification_status := Verif_approved\<rparr>
                 else u) (users db_listed)"
    by blast
  then obtain db2 where "snd (complete_profile No_fault (clock_from 25) plain_data novice_user
        db_listed) = db2"
    and "users db2 = map (\<lambda>u. if user_id u = 3
             then u\<lparr>trust_score := 70, verification_status := Verif_approved\<rparr> else u)
         (users db_listed)"
    using j(2) i by auto
  then have c70: "find (\<lambda>u. user_id u = 3)
         (users (snd (complete_profile No_fault (clock_from 25) plain_data novice_user db_listed)))
       = Some (novice_user\<lparr>trust_score := 70, verification_status := Verif_approved\<rparr>)"
    using u [of 70] by simp
  from inst t [unfolded i]
  obtain db3 where "complete_profile (Raises 2) (clock_from 25) rent_credit_data novice_user
        db_listed = (Inl Complete_profile_failed, db3)"
    and "find (\<lambda>t. tenant_id t = 3) (tenants db3) = Some novice_completed_row"
    and "users db3 = users db_listed"
    by auto
  then have cut: "fst (complete_profile (Raises 2) (clock_from 25) rent_credit_data novice_user
        db_listed) = Inl Complete_profile_failed"
    "find (\<lambda>t. tenant_id t = 3)
         (tenants (snd (complete_profile (Raises 2) (clock_from 25) rent_credit_data
            novice_user db_listed)))
       = Some novice_completed_row"
    "users (snd (complete_profile (Raises 2) (clock_from 25) rent_credit_data novice_user
         db_listed))
       = users db_listed"
    by simp_all
  have f: "fst (complete_profile No_fault (clock_from 25) plain_data owner_user db_listed)
             = Inl Failed_to_complete_profile"
    by (simp add: complete_profile_def example_defs)
  with trust_score_milestones [where fault = No_fault and now = "clock_from 25"
      and profile_data = plain_data and current_user = owner_user and db = db_listed]
  have same: "users (snd (complete_profile No_fault (clock_from 25) plain_data owner_user
        db_listed)) = users db_listed"
    by simp
  from a reg t full c80 c70 cut f same show ?thesis by blast
qed

text \<open>
  Claim C9 as stated fails: when the update of the user's row raises, the tenant's
  profile is stored as complete, so that the tenant may apply, while the tenant's trust
  score is still 50 and the verification status still partial.
\<close>

theorem profile_complete_but_not_approved:
  "complete_profile (Raises 2) (clock_from 25) rent_credit_data novice_user db_listed
     = (Inl Complete_profile_failed, db_half_completed)
   \<and> tenants db_half_completed = [complete_profile_row, novice_completed_row]
   \<and> tenant_id novice_completed_row = user_id novice_user
   \<and> profile_completion novice_completed_row = 100
   \<and> onboarding_completed novice_completed_row
   \<and> users db_half_completed = users db_listed
   \<and> novice_user \<in> set (users db_half_completed)
   \<and> trust_score novice_user = 50
   \<and> verification_status novice_user = Verif_partial
   \<and> \<not> isl (fst (create_application No_fault (clock_from 30) flat_request novice_user
         db_half_completed))"
proof -
  have run: "complete_profile (Raises 2) (clock_from 25) rent_credit_data novice_user db_listed
     = (Inl Complete_profile_failed, db_half_completed)"
    by (simp add: complete_profile_def example_defs update_dict_completes Let_def)
  have rows: "tenants db_half_completed = [complete_profile_row, novice_completed_row]"
    "tenant_id novice_completed_row = user_id novice_user"
    "profile_completion novice_completed_row = 100"
    "onboarding_completed novice_completed_row"
    "users db_half_completed = users db_listed"
    "novice_user \<in> set (users db_half_completed)"
    "trust_score novice_user = 50"
    "verification_status novice_user = Verif_partial"
    by (simp_all add: example_defs update_dict_def)
  have gate: "\<not> isl (fst (create_application No_fault (clock_from 30) flat_request novice_user
         db_half_completed))"
    by (simp add: create_application_def single_def example_defs update_dict_def Let_def)
  from run rows gate show ?thesis by blast
qed

end
